theory Spec2Isabelle
  imports Complex_Main "HOL-Library.AList"
begin

section \<open>Python values shared by both add-ons\<close>

text \<open>
  A Python \<^verbatim>\<open>dict\<close> is an association list with unique keys in insertion order.
  Assigning to a key that is present replaces the value in place, assigning to a new key
  appends it: this is \<^const>\<open>AList.update\<close>. A lookup is \<^const>\<open>map_of\<close>.
\<close>

type_synonym ('k, 'v) dict = "('k \<times> 'v) list"

text \<open>\<^verbatim>\<open>d.update(e)\<close>: every item of \<open>e\<close> is assigned into \<open>d\<close>, in the order of \<open>e\<close>.\<close>

definition dict_update :: "('k, 'v) dict \<Rightarrow> ('k, 'v) dict \<Rightarrow> ('k, 'v) dict" where
  "dict_update d e = foldl (\<lambda>acc (k, v). AList.update k v acc) d e"

text \<open>
  \<^verbatim>\<open>str.lower()\<close> on the ASCII range, which is what the identifiers handed to the
  exporters are made of: the 26 capital letters are mapped, every other character stays.
\<close>

definition lower_char :: "char \<Rightarrow> char" where
  "lower_char c =
     (case map_of (zip ''ABCDEFGHIJKLMNOPQRSTUVWXYZ'' ''abcdefghijklmnopqrstuvwxyz'') c of
        Some l \<Rightarrow> l
      | None \<Rightarrow> c)"

definition lower :: "string \<Rightarrow> string" where
  "lower s = map lower_char s"

section \<open>Export tester: the option matrix\<close>

text \<open>
  The values of an exporter argument dictionary: strings, booleans and floats.
  \<^verbatim>\<open>expand_options\<close> itself only ever stores the strings of its value list; the other
  values come with the fixed extra arguments and are copied without being looked at.
\<close>

datatype py_value = Str string | Bool bool | Float rat

type_synonym kwargs = "(string, py_value) dict"

text \<open>
  \<^verbatim>\<open>
  def expand_options(basename, argname, values, additional_args=None):
      d = {basename + "_" + value.lower(): {argname: value} for value in values}
      if additional_args:
          for args_dict in d.values():
              args_dict.update(additional_args)
      return d
  \<close>
  The comprehension assigns the keys in the order of \<open>values\<close>, so a key that occurs
  twice keeps its first position and its last value. \<^verbatim>\<open>if additional_args\<close> is false
  for \<^verbatim>\<open>None\<close> and for the empty dictionary.
\<close>

definition expand_options ::
  "string \<Rightarrow> string \<Rightarrow> string list \<Rightarrow> kwargs option \<Rightarrow> (string, kwargs) dict" where
  "expand_options basename argname vals additional_args =
     (let d = foldl (\<lambda>acc v. AList.update (basename @ ''_'' @ lower v) [(argname, Str v)] acc)
                [] vals
      in case additional_args of
           None \<Rightarrow> d
         | Some extra \<Rightarrow>
             if extra = [] then d
             else map (\<lambda>(k, args_dict). (k, dict_update args_dict extra)) d)"

text \<open>\<open>{argname: v}\<close> merged with the optional extra arguments, as \<^verbatim>\<open>update\<close> merges.\<close>

definition merged :: "string \<Rightarrow> string \<Rightarrow> kwargs option \<Rightarrow> kwargs" where
  "merged argname v additional_args =
     (case additional_args of
        None \<Rightarrow> [(argname, Str v)]
      | Some extra \<Rightarrow> dict_update [(argname, Str v)] extra)"

section \<open>The host's scene as explicit state\<close>

text \<open>
  Both add-ons work on Blender's global data (\<^verbatim>\<open>bpy.context\<close>, \<^verbatim>\<open>bpy.data\<close>) and on the
  file system. The model passes that data around as one record and returns it updated.
  A Python exception is a value: every function returns an \<open>outcome\<close> together with the
  state reached when it returned or raised.
\<close>

datatype exn =
  AttributeError | IndexError | KeyError | NameError | TypeError | ReferenceError
  | RuntimeError | NotImplementedError | PermissionError | OSError | StopIteration

datatype 'a outcome = Return 'a | Raised exn

datatype status = FINISHED | CANCELLED

text \<open>A material slot of an object: its name and the material it points to, if any.\<close>

record material_slot =
  slot_name :: string
  slot_material :: "string option"

text \<open>\<^verbatim>\<open>MaterialDataGroup\<close>, an entry of \<^verbatim>\<open>scene.material_group\<close>. Materials are data blocks
  with unique names; a pointer to one is its name.\<close>

record material_item =
  item_name :: string
  material :: "string option"
  selected :: bool

text \<open>The coordinates of a UV layer are opaque: either what the user had (numbered), or
  the result of the host's smart projection.\<close>

datatype uv_coords = UserUV nat | SmartProject

record object3d =
  obj_name :: string
  obj_type :: string
  obj_visible :: bool
  obj_select :: bool
  obj_mode :: string
  obj_location :: "rat \<times> rat \<times> rat"
  obj_rotation :: "rat \<times> rat \<times> rat"
  obj_scale :: "rat \<times> rat \<times> rat"
  uv_layers :: "(string \<times> uv_coords) list"
  material_slots :: "material_slot list"
  active_material_index :: int
  users_collection :: "string list"

record image =
  img_name :: string
  img_size :: "int \<times> int"
  colorspace :: string
  filepath_raw :: string
  file_format :: string

text \<open>
  A shading graph. Nodes carry an identity (\<open>node_id\<close>) that is never reused inside a
  tree, so a reference to a removed node stays recognisable as such. Positions in the
  node editor are layout only and are left out. A link leads from a named output socket
  to a numbered input socket; input 0 of the material output node is its Surface input.
\<close>

record node =
  node_id :: nat
  node_type :: string
  node_image :: "string option"

record link =
  from_node :: nat
  from_socket :: string
  to_node :: nat
  to_input :: nat

record node_tree =
  nodes :: "node list"
  links :: "link list"
  active_node :: "nat option"
  next_id :: nat

record material_data =
  use_nodes :: bool
  tree :: node_tree

text \<open>\<^verbatim>\<open>ExportDataGroup\<close> (\<^verbatim>\<open>scene.simplifier\<close>) and \<^verbatim>\<open>BakeDataGroup\<close> (\<^verbatim>\<open>scene.baker\<close>).
  \<open>bake_types\<close> is a set of identifiers in Python; the list gives its members in the order
  in which the set derived from it is iterated.\<close>

record export_data =
  export_dir :: string
  format :: string
  gltf_format :: string
  software :: string
  unwrap_model :: bool
  bake :: bool

record bake_data =
  texture_name :: string
  width :: int
  height :: int
  use_texture :: bool
  bake_types :: "string list"
  device :: string
  export_after :: bool

text \<open>One call of a host exporter: which exporter, the name of the option set the call
  is made for (it is part of the target file's name), the target file, the names of the
  objects selected at that moment (exporters run with \<^verbatim>\<open>use_selection=True\<close>), and the
  remaining keyword arguments.\<close>

record export_call =
  ec_exporter :: string
  ec_option :: string
  ec_filepath :: string
  ec_selection :: "string list"
  ec_kwargs :: kwargs

text \<open>
  The whole state. The last two fields are the attributes of the running bake operator:
  \<open>texture_nodes\<close> maps a material (the owner of a shading graph) to the nodes created
  in its graph, by key; \<open>textures_to_create\<close> holds the lower-case channel names in the
  order in which the Python set is iterated.
\<close>

record blend =
  objects :: "object3d list"
  active :: "string option"
  collections :: "(string, string list) dict"
  blend_filepath :: string
  model_unwrapped :: bool
  simplifier :: export_data
  baker :: bake_data
  material_group :: "material_item list"
  custom_index :: int
  images :: "image list"
  materials :: "(string, material_data) dict"
  render_engine :: string
  cycles_device :: string
  fs_paths :: "string list"
  reports :: "(string \<times> string) list"
  export_calls :: "export_call list"
  texture_nodes :: "(string, (string, nat) dict) dict"
  textures_to_create :: "string list"

text \<open>
  What the model cannot compute is a parameter: whether \<^verbatim>\<open>os.makedirs\<close> succeeds on a
  path (\<open>None\<close>) or raises, and whether a host exporter, the host's bake or an image save
  raises \<^verbatim>\<open>RuntimeError\<close>. Every other host operator has its documented effect on the
  fields above, and is refused where its context check fails.
\<close>

record host =
  makedirs_outcome :: "string \<Rightarrow> exn option"
  exporter_raises :: "export_call \<Rightarrow> bool"
  bake_raises :: "string \<Rightarrow> bool"
  save_raises :: "string \<Rightarrow> bool"

definition report :: "string \<Rightarrow> string \<Rightarrow> blend \<Rightarrow> blend" where
  "report level msg b = b\<lparr>reports := reports b @ [(level, msg)]\<rparr>"

text \<open>Running one step after another: the second step runs on the state the first one
  returned, and not at all if the first one raised.\<close>

definition then_do ::
  "'a outcome \<times> blend \<Rightarrow> ('a \<Rightarrow> blend \<Rightarrow> 'b outcome \<times> blend) \<Rightarrow> 'b outcome \<times> blend" where
  "then_do r f = (case r of (Raised e, b) \<Rightarrow> (Raised e, b) | (Return x, b) \<Rightarrow> f x b)"

text \<open>\<^verbatim>\<open>os.path.join\<close> of two POSIX paths: a second path that is absolute replaces the
  first, and a separator is put in between unless the first is empty or ends in one.\<close>

definition path_join :: "string \<Rightarrow> string \<Rightarrow> string" where
  "path_join a p =
     (if p \<noteq> [] \<and> hd p = CHR ''/'' then p
      else if a = [] \<or> last a = CHR ''/'' then a @ p
      else a @ ''/'' @ p)"

text \<open>\<^verbatim>\<open>bpy.context.selected_objects\<close>, \<^verbatim>\<open>bpy.data.objects[name]\<close> and
  \<^verbatim>\<open>bpy.context.active_object\<close>.\<close>

definition selected_objects :: "blend \<Rightarrow> object3d list" where
  "selected_objects b = filter obj_select (objects b)"

definition lookup_object :: "string \<Rightarrow> blend \<Rightarrow> object3d option" where
  "lookup_object n b = find (\<lambda>ob. obj_name ob = n) (objects b)"

definition active_object :: "blend \<Rightarrow> object3d option" where
  "active_object b = (case active b of None \<Rightarrow> None | Some n \<Rightarrow> lookup_object n b)"

text \<open>Assigning to the attributes of the object of a given name.\<close>

definition update_object :: "string \<Rightarrow> (object3d \<Rightarrow> object3d) \<Rightarrow> blend \<Rightarrow> blend" where
  "update_object n f b =
     b\<lparr>objects := map (\<lambda>ob. if obj_name ob = n then f ob else ob) (objects b)\<rparr>"

text \<open>
  \<^verbatim>\<open>
  def deselect_all_objects(self):
      for obj in bpy.context.scene.objects:
          obj.select_set(False)

  def select_object(self, name):
      self.deselect_all_objects()
      bpy.data.objects[name].select_set(True)
  \<close>
  The export tester's \<^verbatim>\<open>select_object\<close> is the same loop and the same assignment.
\<close>

definition deselect_all_objects :: "blend \<Rightarrow> blend" where
  "deselect_all_objects b = b\<lparr>objects := map (\<lambda>ob. ob\<lparr>obj_select := False\<rparr>) (objects b)\<rparr>"

definition select_object :: "string \<Rightarrow> blend \<Rightarrow> unit outcome \<times> blend" where
  "select_object n b =
     (let b1 = deselect_all_objects b
      in case lookup_object n b1 of
           None \<Rightarrow> (Raised KeyError, b1)
         | Some _ \<Rightarrow> (Return (), update_object n (\<lambda>ob. ob\<lparr>obj_select := True\<rparr>) b1))"

section \<open>Export simplifier: the material list\<close>

text \<open>
  \<^verbatim>\<open>
  old_selection = {}
  for mat in scene.material_group:
      old_selection[mat.material.name] = mat.selected
  \<close>
  An entry whose material pointer is empty has no \<^verbatim>\<open>name\<close>: the attribute access raises.
\<close>

fun save_selection ::
  "material_item list \<Rightarrow> (string, bool) dict \<Rightarrow> (string, bool) dict outcome" where
  "save_selection [] old_selection = Return old_selection"
| "save_selection (mat # rest) old_selection =
     (case material mat of
        None \<Rightarrow> Raised AttributeError
      | Some n \<Rightarrow> save_selection rest (AList.update n (selected mat) old_selection))"

text \<open>
  \<^verbatim>\<open>
  for mat in active_obj.material_slots:
      item = scene.material_group.add()
      item.name = mat.name
      item.material = mat.material
      if mat.name in old_selection and old_selection[mat.name] is True:
          item.selected = True
      else:
          item.selected = False
  \<close>
\<close>

definition rebuilt_item :: "(string, bool) dict \<Rightarrow> material_slot \<Rightarrow> material_item" where
  "rebuilt_item old_selection mat =
     \<lparr>item_name = slot_name mat, material = slot_material mat,
      selected = (map_of old_selection (slot_name mat) = Some True)\<rparr>"

text \<open>
  \<^verbatim>\<open>SIMPLIFIER_OT_update_material_list.execute\<close>: remember the selection by material
  name, clear the list, stop if there is no active object, copy the list index to the
  object, and rebuild the list from the object's material slots.
\<close>

definition update_material_list :: "blend \<Rightarrow> status outcome \<times> blend" where
  "update_material_list b =
     (case save_selection (material_group b) [] of
        Raised e \<Rightarrow> (Raised e, b)
      | Return old_selection \<Rightarrow>
          (let b1 = b\<lparr>material_group := []\<rparr>
           in case active_object b1 of
                None \<Rightarrow> (Return FINISHED, b1)
              | Some active_obj \<Rightarrow>
                  (let b2 = update_object (obj_name active_obj)
                              (\<lambda>ob. ob\<lparr>active_material_index := custom_index b1\<rparr>) b1
                   in (Return FINISHED,
                       b2\<lparr>material_group :=
                            map (rebuilt_item old_selection) (material_slots active_obj)\<rparr>))))"

text \<open>The flag the last entry of a given material name carries in a material list, if
  the list has such an entry.\<close>

definition last_flag :: "material_item list \<Rightarrow> string \<Rightarrow> bool option" where
  "last_flag items n =
     map_option selected (find (\<lambda>it. material it = Some n) (rev items))"

section \<open>Export tester: the batch export\<close>

text \<open>The operator's own attributes. \<open>export_options\<close> maps a format to its named
  option sets.\<close>

record tester =
  export_dir_name :: string
  separate_collection :: "string option"
  tester_export_dir :: "string option"
  export_enum :: string
  export_options :: "(string, (string, kwargs) dict) dict"

text \<open>The formats with an entry in \<^verbatim>\<open>EXPORT_FUNCS\<close>.\<close>

definition EXPORT_FUNCS :: "string list" where
  "EXPORT_FUNCS = [''obj'', ''fbx'', ''gltf'', ''glb'', ''stl'', ''usd'']"

text \<open>
  \<^verbatim>\<open>
  def create_subdir(self, name, path=None):
      if not path:
          path = self.export_dir
      sub_dir = os.path.join(path, name)
      if not os.path.exists(sub_dir):
          os.makedirs(sub_dir)
      return sub_dir
  \<close>
  Nothing is caught here: a failing \<^verbatim>\<open>makedirs\<close> raises out of the operator. Joining
  onto \<^verbatim>\<open>None\<close> is a type error.
\<close>

definition tester_create_subdir ::
  "host \<Rightarrow> tester \<Rightarrow> string \<Rightarrow> string option \<Rightarrow> blend \<Rightarrow> string outcome \<times> blend" where
  "tester_create_subdir h self n path b =
     (case (if path = None \<or> path = Some [] then tester_export_dir self else path) of
        None \<Rightarrow> (Raised TypeError, b)
      | Some p \<Rightarrow>
          (let sub_dir = path_join p n
           in if sub_dir \<in> set (fs_paths b) then (Return sub_dir, b)
              else (case makedirs_outcome h sub_dir of
                      Some e \<Rightarrow> (Raised e, b)
                    | None \<Rightarrow> (Return sub_dir, b\<lparr>fs_paths := fs_paths b @ [sub_dir]\<rparr>))))"

text \<open>
  \<^verbatim>\<open>
  def select_objects_in_collection(self):
      for obj in bpy.context.scene.objects:
          obj.select_set(False)
      for obj in self.separate_collection.all_objects:
          obj.select_set(True)
  \<close>
  \<open>all_objects\<close> is the list the host keeps for the collection.
\<close>

definition select_objects_in_collection :: "tester \<Rightarrow> blend \<Rightarrow> unit outcome \<times> blend" where
  "select_objects_in_collection self b =
     (let b1 = deselect_all_objects b
      in case separate_collection self of
           None \<Rightarrow> (Raised AttributeError, b1)
         | Some c \<Rightarrow>
             (case map_of (collections b1) c of
                None \<Rightarrow> (Raised AttributeError, b1)
              | Some all_objects \<Rightarrow>
                  (Return (),
                   b1\<lparr>objects := map (\<lambda>ob. if obj_name ob \<in> set all_objects
                                            then ob\<lparr>obj_select := True\<rparr> else ob)
                                     (objects b1)\<rparr>)))"

text \<open>
  The inner loop of \<^verbatim>\<open>perform_export\<close>, one exporter call per option set:
  \<^verbatim>\<open>
  for arg_name, kwargs in self.export_options[format].items():
      target_file = os.path.join(obj_dir, obj.name + "_" + arg_name + "." + format)
      EXPORT_FUNCS[format](filepath=target_file, use_selection=True, **kwargs)
  \<close>
  A keyword given twice is a type error; the exporter itself may raise.
\<close>

definition tester_call ::
  "string \<Rightarrow> string \<Rightarrow> string \<Rightarrow> string list \<Rightarrow> string \<times> kwargs \<Rightarrow> export_call" where
  "tester_call fmt obj_dir oname sel opt =
     \<lparr>ec_exporter = fmt, ec_option = fst opt,
      ec_filepath = path_join obj_dir (oname @ ''_'' @ fst opt @ ''.'' @ fmt),
      ec_selection = sel, ec_kwargs = snd opt\<rparr>"

fun export_option_sets ::
  "host \<Rightarrow> string \<Rightarrow> string \<Rightarrow> string \<Rightarrow> (string, kwargs) dict \<Rightarrow> blend
     \<Rightarrow> unit outcome \<times> blend" where
  "export_option_sets h fmt obj_dir oname [] b = (Return (), b)"
| "export_option_sets h fmt obj_dir oname (opt # rest) b =
     (let call = tester_call fmt obj_dir oname (map obj_name (selected_objects b)) opt
      in if fmt \<notin> set EXPORT_FUNCS then (Raised KeyError, b)
         else if ''filepath'' \<in> set (map fst (snd opt)) \<or> ''use_selection'' \<in> set (map fst (snd opt))
           then (Raised TypeError, b)
         else if exporter_raises h call then (Raised RuntimeError, b)
         else export_option_sets h fmt obj_dir oname rest
                (b\<lparr>export_calls := export_calls b @ [call]\<rparr>))"

text \<open>
  The loop of \<^verbatim>\<open>perform_export\<close> over the scene's objects; \<open>collection_exported\<close> is the
  loop's flag.
  \<^verbatim>\<open>
  for obj in context.scene.objects:
      obj_collection = obj.users_collection[0]
      if obj.type == 'MESH' and obj.visible_get():
          if obj_collection == self.separate_collection:
              if collection_exported:
                  continue
              self.select_objects_in_collection()
              collection_exported = True
          else:
              self.select_object(obj.name)
          obj_dir = self.create_subdir(obj.name, sub_dir)
          for arg_name, kwargs in self.export_options[format].items(): ...
  \<close>
\<close>

definition in_separate :: "tester \<Rightarrow> object3d \<Rightarrow> bool" where
  "in_separate self ob =
     (case users_collection ob of
        [] \<Rightarrow> False
      | c # _ \<Rightarrow> separate_collection self = Some c)"

definition exportable :: "object3d \<Rightarrow> bool" where
  "exportable ob = (obj_type ob = ''MESH'' \<and> obj_visible ob)"

definition export_one ::
  "host \<Rightarrow> tester \<Rightarrow> string \<Rightarrow> string \<Rightarrow> object3d \<Rightarrow> blend \<Rightarrow> unit outcome \<times> blend" where
  "export_one h self fmt sub_dir ob b =
     (case tester_create_subdir h self (obj_name ob) (Some sub_dir) b of
        (Raised e, b1) \<Rightarrow> (Raised e, b1)
      | (Return obj_dir, b1) \<Rightarrow>
          (case map_of (export_options self) fmt of
             None \<Rightarrow> (Raised KeyError, b1)
           | Some option_sets \<Rightarrow> export_option_sets h fmt obj_dir (obj_name ob) option_sets b1))"

fun export_objects ::
  "host \<Rightarrow> tester \<Rightarrow> string \<Rightarrow> string \<Rightarrow> bool \<Rightarrow> object3d list \<Rightarrow> blend
     \<Rightarrow> unit outcome \<times> blend" where
  "export_objects h self fmt sub_dir collection_exported [] b = (Return (), b)"
| "export_objects h self fmt sub_dir collection_exported (ob # rest) b =
     (if users_collection ob = [] then (Raised IndexError, b)
      else if exportable ob then
        (if in_separate self ob then
           (if collection_exported then export_objects h self fmt sub_dir True rest b
            else (case select_objects_in_collection self b of
                    (Raised e, b1) \<Rightarrow> (Raised e, b1)
                  | (Return _, b1) \<Rightarrow>
                      (case export_one h self fmt sub_dir ob b1 of
                         (Raised e, b2) \<Rightarrow> (Raised e, b2)
                       | (Return _, b2) \<Rightarrow> export_objects h self fmt sub_dir True rest b2)))
         else (case select_object (obj_name ob) b of
                 (Raised e, b1) \<Rightarrow> (Raised e, b1)
               | (Return _, b1) \<Rightarrow>
                   (case export_one h self fmt sub_dir ob b1 of
                      (Raised e, b2) \<Rightarrow> (Raised e, b2)
                    | (Return _, b2) \<Rightarrow>
                        export_objects h self fmt sub_dir collection_exported rest b2)))
      else export_objects h self fmt sub_dir collection_exported rest b)"

text \<open>\<^verbatim>\<open>perform_export(self, context, format)\<close>: the directory of the format, then the
  loop, then \<^verbatim>\<open>return True\<close>.\<close>

definition perform_export :: "host \<Rightarrow> tester \<Rightarrow> string \<Rightarrow> blend \<Rightarrow> bool outcome \<times> blend" where
  "perform_export h self fmt b =
     (case tester_create_subdir h self fmt None b of
        (Raised e, b1) \<Rightarrow> (Raised e, b1)
      | (Return sub_dir, b1) \<Rightarrow>
          (case export_objects h self fmt sub_dir False (objects b1) b1 of
             (Raised e, b2) \<Rightarrow> (Raised e, b2)
           | (Return _, b2) \<Rightarrow> (Return True, b2)))"

text \<open>
  The loop of the tester's \<^verbatim>\<open>execute\<close> over the formats:
  \<^verbatim>\<open>
  for format in formats:
      if not self.perform_export(context, format): ... return {'CANCELLED'}
  \<close>
  The result is \<open>False\<close> when a format made the loop stop.
\<close>

fun export_formats :: "host \<Rightarrow> tester \<Rightarrow> string list \<Rightarrow> blend \<Rightarrow> bool outcome \<times> blend" where
  "export_formats h self [] b = (Return True, b)"
| "export_formats h self (fmt # rest) b =
     (case perform_export h self fmt b of
        (Raised e, b1) \<Rightarrow> (Raised e, b1)
      | (Return ok, b1) \<Rightarrow> if ok then export_formats h self rest b1 else (Return False, b1))"







text \<open>An object with its selection flag cleared: what selecting and deselecting leave
  untouched.\<close>

definition unsel :: "object3d \<Rightarrow> object3d" where
  "unsel ob = ob\<lparr>obj_select := False\<rparr>"



definition option_sets :: "tester \<Rightarrow> string \<Rightarrow> (string \<times> kwargs) list" where
  "option_sets self fmt =
     (case map_of (export_options self) fmt of None \<Rightarrow> [] | Some sets \<Rightarrow> sets)"


definition call_key :: "export_call \<Rightarrow> string \<times> string \<times> string" where
  "call_key c = (ec_exporter c, ec_option c, ec_filepath c)"


section \<open>Export simplifier: host operators\<close>

text \<open>
  The host operators the add-on calls, with the effect they have on the modelled fields.
  An operator whose context check fails raises \<^verbatim>\<open>RuntimeError\<close> and changes nothing:
  \<^verbatim>\<open>transform_apply\<close> wants object mode (an active object, if there is one, must be in
  it) and acts on the selected objects; \<^verbatim>\<open>mode_set\<close> wants an active object, and a mode
  the host does not offer for the type of that object is a \<^verbatim>\<open>TypeError\<close>; it acts on
  the active object and on the selected objects of its type; \<^verbatim>\<open>mesh.select_all\<close> and
  \<^verbatim>\<open>smart_project\<close> want the active object to be a mesh in edit mode, and
  \<^verbatim>\<open>smart_project\<close> writes the first UV layer of the meshes in edit mode, creating one
  if there is none. Objects own their data and are local to the file.
\<close>

definition object_modes :: "string \<Rightarrow> string list" where
  "object_modes t =
     (if t = ''MESH'' then
        [''OBJECT'', ''EDIT'', ''SCULPT'', ''VERTEX_PAINT'', ''WEIGHT_PAINT'', ''TEXTURE_PAINT'',
         ''PARTICLE_EDIT'']
      else if t \<in> set [''CURVE'', ''SURFACE'', ''META'', ''FONT'', ''LATTICE''] then
        [''OBJECT'', ''EDIT'']
      else if t = ''ARMATURE'' then [''OBJECT'', ''EDIT'', ''POSE'']
      else if t = ''GPENCIL'' then
        [''OBJECT'', ''EDIT_GPENCIL'', ''SCULPT_GPENCIL'', ''PAINT_GPENCIL'', ''WEIGHT_GPENCIL'',
         ''VERTEX_GPENCIL'']
      else [''OBJECT''])"

definition transform_apply :: "bool \<Rightarrow> bool \<Rightarrow> bool \<Rightarrow> blend \<Rightarrow> unit outcome \<times> blend" where
  "transform_apply loc rot scl b =
     (if (case active_object b of None \<Rightarrow> False | Some act \<Rightarrow> obj_mode act \<noteq> ''OBJECT'')
        then (Raised RuntimeError, b)
      else
        (Return (),
         b\<lparr>objects :=
             map (\<lambda>ob. if obj_select ob
                       then ob\<lparr>obj_location := (if loc then (0, 0, 0) else obj_location ob),
                               obj_rotation := (if rot then (0, 0, 0) else obj_rotation ob),
                               obj_scale := (if scl then (1, 1, 1) else obj_scale ob)\<rparr>
                       else ob) (objects b)\<rparr>))"

definition mode_set :: "string \<Rightarrow> blend \<Rightarrow> unit outcome \<times> blend" where
  "mode_set m b =
     (case active_object b of
        None \<Rightarrow> (Raised RuntimeError, b)
      | Some act \<Rightarrow>
          if m \<notin> set (object_modes (obj_type act)) then (Raised TypeError, b)
          else
            (Return (),
             b\<lparr>objects :=
                 map (\<lambda>ob. if obj_name ob = obj_name act
                              \<or> (obj_select ob \<and> obj_type ob = obj_type act)
                           then ob\<lparr>obj_mode := m\<rparr> else ob) (objects b)\<rparr>))"

definition edit_mesh :: "blend \<Rightarrow> bool" where
  "edit_mesh b =
     (case active_object b of
        None \<Rightarrow> False
      | Some act \<Rightarrow> obj_type act = ''MESH'' \<and> obj_mode act = ''EDIT'')"

definition mesh_select_all :: "blend \<Rightarrow> unit outcome \<times> blend" where
  "mesh_select_all b = (if edit_mesh b then (Return (), b) else (Raised RuntimeError, b))"

definition smart_project :: "blend \<Rightarrow> unit outcome \<times> blend" where
  "smart_project b =
     (if \<not> edit_mesh b then (Raised RuntimeError, b)
      else
        (Return (),
         b\<lparr>objects :=
             map (\<lambda>ob. if obj_type ob = ''MESH'' \<and> obj_mode ob = ''EDIT''
                       then ob\<lparr>uv_layers := (case uv_layers ob of
                                                 [] \<Rightarrow> [(''UVMap'', SmartProject)]
                                               | (n, _) # rest \<Rightarrow> (n, SmartProject) # rest)\<rparr>
                       else ob) (objects b)\<rparr>))"

text \<open>\<^verbatim>\<open>bpy.ops.object.duplicate(linked=False)\<close>: every selected object gets a copy under
  a new name; the copies are selected instead of the originals, and the copy of the
  active object becomes the active one. The export operator calls it, and
  \<^verbatim>\<open>delete\<close> below, only with the active object in object mode, where the host accepts
  both.\<close>

definition copy_name :: "string \<Rightarrow> string" where
  "copy_name n = n @ ''.001''"

definition duplicate :: "blend \<Rightarrow> blend" where
  "duplicate b =
     b\<lparr>objects := map (\<lambda>ob. ob\<lparr>obj_select := False\<rparr>) (objects b)
                    @ map (\<lambda>ob. ob\<lparr>obj_name := copy_name (obj_name ob)\<rparr>) (selected_objects b),
       active := (case active b of
                    None \<Rightarrow> None
                  | Some a \<Rightarrow> if a \<in> set (map obj_name (selected_objects b))
                              then Some (copy_name a) else Some a)\<rparr>"

text \<open>\<^verbatim>\<open>bpy.ops.object.delete()\<close>: the selected objects leave the scene.\<close>

definition delete :: "blend \<Rightarrow> blend" where
  "delete b =
     b\<lparr>objects := filter (\<lambda>ob. \<not> obj_select ob) (objects b),
       active := (case active b of
                    None \<Rightarrow> None
                  | Some a \<Rightarrow> if a \<in> set (map obj_name (selected_objects b)) then None else Some a)\<rparr>"

section \<open>Export simplifier: module functions\<close>

text \<open>
  \<^verbatim>\<open>
  def create_subdir(name, path=None):
      if not path:
          path = bpy.context.scene.simplifier.export_dir
      sub_dir = os.path.join(path, name)
      if not os.path.exists(sub_dir):
          try:
              os.makedirs(sub_dir)
          except PermissionError:
              return ""
      return sub_dir
  \<close>
  Only \<^verbatim>\<open>PermissionError\<close> is turned into the empty string; any other failure of
  \<^verbatim>\<open>makedirs\<close> raises.
\<close>

definition create_subdir :: "host \<Rightarrow> string \<Rightarrow> string \<Rightarrow> blend \<Rightarrow> string outcome \<times> blend" where
  "create_subdir h n path b =
     (let p = (if path = [] then export_dir (simplifier b) else path);
          sub_dir = path_join p n
      in if sub_dir \<in> set (fs_paths b) then (Return sub_dir, b)
         else (case makedirs_outcome h sub_dir of
                 None \<Rightarrow> (Return sub_dir, b\<lparr>fs_paths := fs_paths b @ [sub_dir]\<rparr>)
               | Some e \<Rightarrow> if e = PermissionError then (Return [], b) else (Raised e, b)))"

text \<open>
  \<^verbatim>\<open>
  def unwrap():
      if not bpy.context.scene.model_unwrapped:
          bpy.ops.object.transform_apply(location=False, rotation=False, scale=True)
          bpy.ops.object.mode_set(mode='EDIT')
          bpy.ops.mesh.select_all(action='SELECT')
          bpy.ops.uv.smart_project(island_margin=0.06)
          bpy.ops.object.mode_set(mode='OBJECT')
          bpy.context.scene.model_unwrapped = True
  \<close>
  Selecting all elements of the mesh does not touch a modelled field. Nothing is caught:
  an operator that raises ends \<^verbatim>\<open>unwrap\<close> where it stands, the flag unset.
\<close>

definition unwrap :: "blend \<Rightarrow> unit outcome \<times> blend" where
  "unwrap b =
     (if \<not> model_unwrapped b then
        then_do (transform_apply False False True b) (\<lambda>_ b1.
        then_do (mode_set ''EDIT'' b1) (\<lambda>_ b2.
        then_do (mesh_select_all b2) (\<lambda>_ b3.
        then_do (smart_project b3) (\<lambda>_ b4.
        then_do (mode_set ''OBJECT'' b4) (\<lambda>_ b5.
          (Return (), b5\<lparr>model_unwrapped := True\<rparr>))))))
      else (Return (), b))"

section \<open>Export simplifier: the export operator\<close>

text \<open>\<^verbatim>\<open>correct_origin\<close>, \<^verbatim>\<open>apply_transform\<close> and the operator's \<^verbatim>\<open>clean_up\<close>, which deletes
  the duplicated objects.\<close>

definition correct_origin :: "string \<Rightarrow> blend \<Rightarrow> blend" where
  "correct_origin n b = update_object n (\<lambda>ob. ob\<lparr>obj_location := (0, 0, 0)\<rparr>) b"

definition apply_transform :: "blend \<Rightarrow> unit outcome \<times> blend" where
  "apply_transform b = transform_apply True True True b"

definition export_clean_up :: "blend \<Rightarrow> blend" where
  "export_clean_up b = delete b"

text \<open>A call of one of the host's scene exporters on the current selection.\<close>

definition call_exporter ::
  "host \<Rightarrow> string \<Rightarrow> string \<Rightarrow> kwargs \<Rightarrow> blend \<Rightarrow> unit outcome \<times> blend" where
  "call_exporter h exporter target_file kw b =
     (let call = \<lparr>ec_exporter = exporter, ec_option = [], ec_filepath = target_file,
                  ec_selection = map obj_name (selected_objects b), ec_kwargs = kw\<rparr>
      in if exporter_raises h call then (Raised RuntimeError, b)
         else (Return (), b\<lparr>export_calls := export_calls b @ [call]\<rparr>))"

text \<open>
  \<^verbatim>\<open>export_unreal(self, context, obj_dir, obj_name)\<close>. The three branches differ in the
  exporter and its arguments, and glTF applies all transforms first; a format other than
  the three does nothing.
\<close>

definition export_unreal :: "host \<Rightarrow> string \<Rightarrow> string \<Rightarrow> blend \<Rightarrow> unit outcome \<times> blend" where
  "export_unreal h obj_dir oname b =
     (let data = simplifier b;
          objs = selected_objects b;
          extension = (if format data = ''GLTF'' \<and> gltf_format data = ''GLB'' then ''glb''
                       else lower (format data));
          target_file = path_join obj_dir (oname @ ''.'' @ extension);
          b1 = (if length objs = 1 then correct_origin (obj_name (hd objs)) b else b)
      in if format data = ''FBX'' then
           then_do (if unwrap_model data then unwrap b1 else (Return (), b1)) (\<lambda>_ b2.
             call_exporter h ''fbx'' target_file
               [(''mesh_smooth_type'', Str ''FACE''), (''bake_space_transform'', Bool True)] b2)
         else if format data = ''OBJ'' then
           then_do (if unwrap_model data then unwrap b1 else (Return (), b1)) (\<lambda>_ b2.
             call_exporter h ''obj'' target_file
               [(''axis_forward'', Str ''Y''), (''axis_up'', Str ''Z''), (''global_scale'', Float 100)]
               b2)
         else if format data = ''GLTF'' then
           then_do (apply_transform b1) (\<lambda>_ b2.
           then_do (if unwrap_model data then unwrap b2 else (Return (), b2)) (\<lambda>_ b3.
             call_exporter h ''gltf'' target_file
               [(''export_apply'', Bool True), (''export_format'', Str (gltf_format data))] b3))
         else (Return (), b))"

text \<open>
  \<^verbatim>\<open>
  def perform_export(self, context):
      obj_name = bpy.context.selected_objects[0].name
      bpy.ops.object.duplicate(linked=False)
      obj_dir = create_subdir(obj_name, self.data.export_dir)
      if not obj_dir:
          self.report({'ERROR'}, "Cannot access chosen dir.")
          self.clean_up(context)
          return False
      if self.data.software == "UNREAL":
          self.export_unreal(context, obj_dir, obj_name)
      elif self.data.software == "UNITY":
          self.export_unity(context, obj_dir, obj_name)
      else:
          self.clean_up(context)
          raise NotImplementedError("This software is not supported")
      self.clean_up(context)
      return True
  \<close>
\<close>

definition simplifier_perform_export :: "host \<Rightarrow> blend \<Rightarrow> bool outcome \<times> blend" where
  "simplifier_perform_export h b =
     (case selected_objects b of
        [] \<Rightarrow> (Raised IndexError, b)
      | first # _ \<Rightarrow>
          (let oname = obj_name first;
               b1 = duplicate b
           in case create_subdir h oname (export_dir (simplifier b1)) b1 of
                (Raised e, b2) \<Rightarrow> (Raised e, b2)
              | (Return obj_dir, b2) \<Rightarrow>
                  if obj_dir = [] then
                    (Return False, export_clean_up (report ''ERROR'' ''Cannot access chosen dir.'' b2))
                  else if software (simplifier b2) = ''UNREAL'' then
                    (case export_unreal h obj_dir oname b2 of
                       (Raised e, b3) \<Rightarrow> (Raised e, b3)
                     | (Return _, b3) \<Rightarrow> (Return True, export_clean_up b3))
                  else if software (simplifier b2) = ''UNITY'' then
                    (Return True, export_clean_up b2)
                  else (Raised NotImplementedError, export_clean_up b2)))"

text \<open>
  \<^verbatim>\<open>
  def set_original_configuration(self, mode, selected, active):
      """Set previously selected mode and active and selected objects"""
      for obj in selected:
          self.select_object(obj.name)
      bpy.context.view_layer.objects.active = active
      bpy.ops.object.mode_set(mode=mode)
  \<close>
  The remembered objects are given by their names.
\<close>

fun select_each :: "string list \<Rightarrow> blend \<Rightarrow> unit outcome \<times> blend" where
  "select_each [] b = (Return (), b)"
| "select_each (n # rest) b =
     (case select_object n b of
        (Raised e, b1) \<Rightarrow> (Raised e, b1)
      | (Return _, b1) \<Rightarrow> select_each rest b1)"

definition set_original_configuration ::
  "string \<Rightarrow> string list \<Rightarrow> string option \<Rightarrow> blend \<Rightarrow> unit outcome \<times> blend" where
  "set_original_configuration m sel act b =
     (case select_each sel b of
        (Raised e, b1) \<Rightarrow> (Raised e, b1)
      | (Return _, b1) \<Rightarrow> mode_set m (b1\<lparr>active := act\<rparr>))"

text \<open>
  \<^verbatim>\<open>SIMPLIFIER_OT_export.execute\<close>: reset the unwrap flag, refuse an empty selection,
  remember mode, active object and selection, leave any other mode for object mode,
  export, and restore on both ways out.
\<close>

definition export_execute :: "host \<Rightarrow> blend \<Rightarrow> status outcome \<times> blend" where
  "export_execute h b0 =
     (let b = b0\<lparr>model_unwrapped := False\<rparr>
      in if length (selected_objects b) = 0 then
           (Return CANCELLED,
            report ''ERROR'' ''No models selected, please select models you want to export'' b)
         else
           (case active_object b of
              None \<Rightarrow> (Raised AttributeError, b)
            | Some active_ob \<Rightarrow>
                (let current_mode = obj_mode active_ob;
                     active_obj = active b;
                     sel = map obj_name (selected_objects b)
                 in then_do (if current_mode \<noteq> ''OBJECT'' then mode_set ''OBJECT'' b
                             else (Return (), b)) (\<lambda>_ b1.
                      case simplifier_perform_export h b1 of
                        (Raised e, b2) \<Rightarrow> (Raised e, b2)
                      | (Return ok, b2) \<Rightarrow>
                          (case set_original_configuration current_mode sel active_obj b2 of
                             (Raised e, b3) \<Rightarrow> (Raised e, b3)
                           | (Return _, b3) \<Rightarrow>
                               if ok then (Return FINISHED,
                                           report ''INFO'' ''Model successfully exported'' b3)
                               else (Return CANCELLED, b3))))))"
section \<open>Export simplifier: shading graphs\<close>

text \<open>
  The host's operations on a node tree. A new node gets the next identity. Removing a
  node takes its links along; a reference to a node that is not (or no longer) in the
  tree is refused by the host, which the caller sees as \<^verbatim>\<open>ReferenceError\<close>. A new link
  replaces whatever fed the input before.
\<close>

definition has_node :: "nat \<Rightarrow> node_tree \<Rightarrow> bool" where
  "has_node nid t = (nid \<in> set (map node_id (nodes t)))"

definition nodes_new :: "string \<Rightarrow> node_tree \<Rightarrow> nat \<times> node_tree" where
  "nodes_new ty t =
     (next_id t,
      t\<lparr>nodes := nodes t @ [\<lparr>node_id = next_id t, node_type = ty, node_image = None\<rparr>],
        next_id := Suc (next_id t)\<rparr>)"

definition nodes_remove :: "nat \<Rightarrow> node_tree \<Rightarrow> node_tree option" where
  "nodes_remove nid t =
     (if has_node nid t
      then Some (t\<lparr>nodes := filter (\<lambda>nd. node_id nd \<noteq> nid) (nodes t),
                   links := filter (\<lambda>l. from_node l \<noteq> nid \<and> to_node l \<noteq> nid) (links t),
                   active_node := (if active_node t = Some nid then None else active_node t)\<rparr>)
      else None)"

definition links_new :: "nat \<Rightarrow> string \<Rightarrow> nat \<Rightarrow> nat \<Rightarrow> node_tree \<Rightarrow> node_tree option" where
  "links_new fn fs tn ti t =
     (if has_node fn t \<and> has_node tn t
      then Some (t\<lparr>links := filter (\<lambda>l. \<not> (to_node l = tn \<and> to_input l = ti)) (links t)
                             @ [\<lparr>from_node = fn, from_socket = fs, to_node = tn, to_input = ti\<rparr>]\<rparr>)
      else None)"

text \<open>The name of the first output socket of the node types the operator creates.\<close>

definition first_output :: "string \<Rightarrow> string" where
  "first_output ty =
     (if ty = ''TEX_IMAGE'' then ''Color''
      else if ty = ''NORMAL_MAP'' then ''Normal''
      else ''BSDF'')"

text \<open>Reading and writing the node tree of a material, and the nodes of all materials
  with their owners: what a claim about residual nodes looks at.\<close>

definition set_tree :: "string \<Rightarrow> node_tree \<Rightarrow> blend \<Rightarrow> blend" where
  "set_tree m t b =
     b\<lparr>materials := map (\<lambda>(k, md). if k = m then (k, md\<lparr>tree := t\<rparr>) else (k, md)) (materials b)\<rparr>"

definition tree_of :: "string \<Rightarrow> blend \<Rightarrow> node_tree option" where
  "tree_of m b = map_option tree (map_of (materials b) m)"

definition all_nodes :: "blend \<Rightarrow> (string \<times> node list) list" where
  "all_nodes b = map (\<lambda>(k, md). (k, nodes (tree md))) (materials b)"

section \<open>Export simplifier: the bake operator\<close>

text \<open>
  \<^verbatim>\<open>str.strip()\<close> removes the characters \<^verbatim>\<open>str.isspace()\<close> holds for. A character of
  the model is a code point below 256, and these are the white space among them: the
  blank, tab to carriage return, the four separators \<open>0x1C\<close> to \<open>0x1F\<close>, next line
  (\<open>0x85\<close>) and the no-break space (\<open>0xA0\<close>).
\<close>

definition is_space :: "char \<Rightarrow> bool" where
  "is_space c =
     (c \<in> set [CHR '' '', CHR 0x09, CHR 0x0A, CHR 0x0B, CHR 0x0C, CHR 0x0D,
                CHR 0x1C, CHR 0x1D, CHR 0x1E, CHR 0x1F, CHR 0x85, CHR 0xA0])"

definition strip :: "string \<Rightarrow> string" where
  "strip s = rev (dropWhile is_space (rev (dropWhile is_space s)))"

text \<open>
  \<^verbatim>\<open>
  def texture_exists(self, texture_name, baker):
      for img in bpy.data.images:
          if img.name == texture_name and img.size[0] == baker.width and img.size[1] == baker.height:
              return True
          if img.name == texture_name and (img.size[0] != baker.width or img.size[1] != baker.height):
              raise AttributeError("Cannot change textures resolution")
      return False
  \<close>
\<close>

fun texture_exists :: "string \<Rightarrow> bake_data \<Rightarrow> image list \<Rightarrow> bool outcome" where
  "texture_exists n bk [] = Return False"
| "texture_exists n bk (img # rest) =
     (if img_name img = n \<and> fst (img_size img) = width bk \<and> snd (img_size img) = height bk
        then Return True
      else if img_name img = n \<and> (fst (img_size img) \<noteq> width bk \<or> snd (img_size img) \<noteq> height bk)
        then Raised AttributeError
      else texture_exists n bk rest)"

text \<open>
  \<^verbatim>\<open>bpy.data.images.new(name=..., width=..., height=..., alpha=False)\<close>. The host
  keeps a size of an image at 1 at least: a smaller argument is raised to 1. It keeps
  the name of a data block within 63 bytes of UTF-8 (a code point from 128 on takes two)
  and cuts a longer name after the last character that fits. A name that is in use
  would get a numeric suffix; that does not arise here for a name within the limit,
  since the operator asks for an image only when none has the name.
\<close>

definition utf8_length :: "string \<Rightarrow> nat" where
  "utf8_length s = sum_list (map (\<lambda>c. if of_char c < (128 :: nat) then 1 else 2) s)"

fun take_utf8 :: "nat \<Rightarrow> string \<Rightarrow> string" where
  "take_utf8 k [] = []"
| "take_utf8 k (c # cs) =
     (if of_char c < (128 :: nat)
      then (if 1 \<le> k then c # take_utf8 (k - 1) cs else [])
      else (if 2 \<le> k then c # take_utf8 (k - 2) cs else []))"

definition images_new :: "string \<Rightarrow> int \<Rightarrow> int \<Rightarrow> blend \<Rightarrow> blend" where
  "images_new n w hgt b =
     b\<lparr>images := images b @ [\<lparr>img_name = take_utf8 63 n, img_size = (max 1 w, max 1 hgt),
                               colorspace = ''sRGB'', filepath_raw = [], file_format = ''TARGA''\<rparr>]\<rparr>"

text \<open>
  The loop of \<^verbatim>\<open>generate_texture\<close>:
  \<^verbatim>\<open>
  for map_name in self.textures_to_create:
      try:
          if not self.texture_exists(texture_name + "_" + map_name, baker):
              bpy.data.images.new(name=texture_name + "_" + map_name, ...)
      except AttributeError:
          self.report({'ERROR'}, "Cannot change resolution of existing texture, ...")
          return False
  return True
  \<close>
\<close>

fun generate_loop :: "string \<Rightarrow> string list \<Rightarrow> blend \<Rightarrow> bool outcome \<times> blend" where
  "generate_loop tex [] b = (Return True, b)"
| "generate_loop tex (map_name # rest) b =
     (case texture_exists (tex @ ''_'' @ map_name) (baker b) (images b) of
        Raised e \<Rightarrow>
          if e = AttributeError then
            (Return False,
             report ''ERROR''
               ''Cannot change resolution of existing texture, delete texture in Blender or use another name.''
               b)
          else (Raised e, b)
      | Return found \<Rightarrow>
          generate_loop tex rest
            (if found then b
             else images_new (tex @ ''_'' @ map_name) (width (baker b)) (height (baker b)) b))"

text \<open>
  \<^verbatim>\<open>generate_texture(self, context, texture_name)\<close>: refuse a blank texture name, derive
  the set of channel names, run the loop.
\<close>

definition generate_texture :: "string \<Rightarrow> blend \<Rightarrow> bool outcome \<times> blend" where
  "generate_texture tex b =
     (if strip (texture_name (baker b)) = [] then
        (Return False, report ''ERROR'' ''No texture name set.'' b)
      else
        (let b1 = b\<lparr>textures_to_create := remdups (map lower (bake_types (baker b)))\<rparr>
         in generate_loop tex (textures_to_create b1) b1))"

text \<open>
  \<^verbatim>\<open>
  def clean_up(self, context, specific_texture=None):
      for node_tree, node_dict in self.texture_nodes.items():
          if not specific_texture:
              for node in node_dict.values():
                  node_tree.nodes.remove(node)
          else:
              node_tree.nodes.remove(node_dict[specific_texture])
  \<close>
  The dictionary itself is left as it is: it keeps the references to the removed nodes.
\<close>

fun remove_nodes :: "string \<Rightarrow> nat list \<Rightarrow> blend \<Rightarrow> unit outcome \<times> blend" where
  "remove_nodes m [] b = (Return (), b)"
| "remove_nodes m (nid # rest) b =
     (case tree_of m b of
        None \<Rightarrow> (Raised ReferenceError, b)
      | Some t \<Rightarrow>
          (case nodes_remove nid t of
             None \<Rightarrow> (Raised ReferenceError, b)
           | Some t' \<Rightarrow> remove_nodes m rest (set_tree m t' b)))"

fun clean_up_loop ::
  "string option \<Rightarrow> (string, (string, nat) dict) dict \<Rightarrow> blend \<Rightarrow> unit outcome \<times> blend" where
  "clean_up_loop specific [] b = (Return (), b)"
| "clean_up_loop specific ((m, node_dict) # rest) b =
     (case specific of
        None \<Rightarrow>
          (case remove_nodes m (map snd node_dict) b of
             (Raised e, b1) \<Rightarrow> (Raised e, b1)
           | (Return _, b1) \<Rightarrow> clean_up_loop specific rest b1)
      | Some key \<Rightarrow>
          (case map_of node_dict key of
             None \<Rightarrow> (Raised KeyError, b)
           | Some nid \<Rightarrow>
               (case remove_nodes m [nid] b of
                  (Raised e, b1) \<Rightarrow> (Raised e, b1)
                | (Return _, b1) \<Rightarrow> clean_up_loop specific rest b1)))"

definition clean_up :: "string option \<Rightarrow> blend \<Rightarrow> unit outcome \<times> blend" where
  "clean_up specific_texture b =
     clean_up_loop (if specific_texture = Some [] then None else specific_texture)
       (texture_nodes b) b"

text \<open>
  The loop of \<^verbatim>\<open>save_textures\<close> over the nodes of the first material:
  \<^verbatim>\<open>
  for tex_node in self.texture_nodes[first].values():
      if hasattr(tex_node, "image"):
          tex_node.image.filepath_raw = os.path.join(texture_dir, tex_node.image.name + ".png")
          tex_node.image.file_format = 'PNG'
          tex_node.image.save()
  \<close>
  Only image texture nodes have an \<^verbatim>\<open>image\<close>.
\<close>

definition save_image :: "host \<Rightarrow> string \<Rightarrow> string \<Rightarrow> blend \<Rightarrow> unit outcome \<times> blend" where
  "save_image h texture_dir iname b =
     (let target = path_join texture_dir (iname @ ''.png'');
          b1 = b\<lparr>images := map (\<lambda>img. if img_name img = iname
                                       then img\<lparr>filepath_raw := target, file_format := ''PNG''\<rparr>
                                       else img) (images b)\<rparr>
      in if save_raises h target then (Raised RuntimeError, b1)
         else (Return (), b1\<lparr>fs_paths := fs_paths b1 @ [target]\<rparr>))"

fun save_nodes :: "host \<Rightarrow> string \<Rightarrow> string \<Rightarrow> nat list \<Rightarrow> blend \<Rightarrow> unit outcome \<times> blend" where
  "save_nodes h m texture_dir [] b = (Return (), b)"
| "save_nodes h m texture_dir (nid # rest) b =
     (case tree_of m b of
        None \<Rightarrow> (Raised ReferenceError, b)
      | Some t \<Rightarrow>
          (case find (\<lambda>nd. node_id nd = nid) (nodes t) of
             None \<Rightarrow> (Raised ReferenceError, b)
           | Some nd \<Rightarrow>
               if node_type nd = ''TEX_IMAGE'' then
                 (case node_image nd of
                    None \<Rightarrow> (Raised AttributeError, b)
                  | Some iname \<Rightarrow>
                      (case save_image h texture_dir iname b of
                         (Raised e, b1) \<Rightarrow> (Raised e, b1)
                       | (Return _, b1) \<Rightarrow> save_nodes h m texture_dir rest b1))
               else save_nodes h m texture_dir rest b))"

text \<open>
  \<^verbatim>\<open>
  def save_textures(self, context):
      simplifier = context.scene.simplifier
      first = next(iter(self.texture_nodes))
      obj_name = bpy.context.selected_objects[0].name
      obj_dir = create_subdir(obj_name, simplifier.export_dir)
      if not obj_dir:
          self.report({'ERROR'}, "Cannot access chosen dir.")
          return False
      texture_dir = create_subdir("baked_textures", obj_dir)
      if not texture_dir:
          self.report({'ERROR'}, "Cannot access chosen dir.")
          return False
      for tex_node in self.texture_nodes[first].values(): ...
      return True
  \<close>
\<close>

definition save_textures :: "host \<Rightarrow> blend \<Rightarrow> bool outcome \<times> blend" where
  "save_textures h b =
     (case texture_nodes b of
        [] \<Rightarrow> (Raised StopIteration, b)
      | (first, node_dict) # _ \<Rightarrow>
          (case selected_objects b of
             [] \<Rightarrow> (Raised IndexError, b)
           | ob # _ \<Rightarrow>
               (case create_subdir h (obj_name ob) (export_dir (simplifier b)) b of
                  (Raised e, b1) \<Rightarrow> (Raised e, b1)
                | (Return obj_dir, b1) \<Rightarrow>
                    if obj_dir = [] then
                      (Return False, report ''ERROR'' ''Cannot access chosen dir.'' b1)
                    else
                      (case create_subdir h ''baked_textures'' obj_dir b1 of
                         (Raised e, b2) \<Rightarrow> (Raised e, b2)
                       | (Return texture_dir, b2) \<Rightarrow>
                           if texture_dir = [] then
                             (Return False, report ''ERROR'' ''Cannot access chosen dir.'' b2)
                           else
                             (case save_nodes h first texture_dir (map snd node_dict) b2 of
                                (Raised e, b3) \<Rightarrow> (Raised e, b3)
                              | (Return _, b3) \<Rightarrow> (Return True, b3))))))"

section \<open>Export simplifier: preparing the shading graphs\<close>

text \<open>
  The deferred connections to the output node. The operator keeps them as closures; a
  closure is given here by what it links: the material, the node to link from (absent
  when the closure's variable was never assigned), that node's output socket, and the
  output node. \<^verbatim>\<open>connect_to_outputs\<close> holds the two lists.
\<close>

datatype reconnect = Reconnect string "nat option" string nat

record connect_to_outputs =
  co_new :: "reconnect list"
  co_old :: "reconnect list"

definition set_texture_node :: "string \<Rightarrow> string \<Rightarrow> nat \<Rightarrow> blend \<Rightarrow> blend" where
  "set_texture_node m key nid b =
     b\<lparr>texture_nodes :=
         AList.update m
           (AList.update key nid (case map_of (texture_nodes b) m of None \<Rightarrow> [] | Some d \<Rightarrow> d))
           (texture_nodes b)\<rparr>"

text \<open>
  \<^verbatim>\<open>
  for map_name in self.textures_to_create:
      self.texture_nodes[node_tree][map_name] = nodes.new("ShaderNodeTexImage")
      self.texture_nodes[node_tree][map_name].image = bpy.data.images[baker.texture_name + "_" + map_name]
      if map_name != "diffuse":
          self.texture_nodes[node_tree][map_name].image.colorspace_settings.name = "Non-Color"
  \<close>
\<close>

fun create_texture_nodes :: "string \<Rightarrow> string list \<Rightarrow> blend \<Rightarrow> unit outcome \<times> blend" where
  "create_texture_nodes m [] b = (Return (), b)"
| "create_texture_nodes m (map_name # rest) b =
     (case tree_of m b of
        None \<Rightarrow> (Raised ReferenceError, b)
      | Some t \<Rightarrow>
          (let nid = fst (nodes_new ''TEX_IMAGE'' t);
               t1 = snd (nodes_new ''TEX_IMAGE'' t);
               b1 = set_texture_node m map_name nid (set_tree m t1 b);
               iname = texture_name (baker b1) @ ''_'' @ map_name
           in if iname \<notin> set (map img_name (images b1)) then (Raised KeyError, b1)
              else
                (let t2 = t1\<lparr>nodes := map (\<lambda>nd. if node_id nd = nid
                                                  then nd\<lparr>node_image := Some iname\<rparr> else nd)
                                         (nodes t1)\<rparr>;
                     b2 = set_tree m t2 b1;
                     b3 = (if map_name \<noteq> ''diffuse''
                           then b2\<lparr>images := map (\<lambda>img. if img_name img = iname
                                                           then img\<lparr>colorspace := ''Non-Color''\<rparr>
                                                           else img) (images b2)\<rparr>
                           else b2)
                 in create_texture_nodes m rest b3)))"

text \<open>\<^verbatim>\<open>node_tree.links.new(a.outputs[0], c.inputs[i])\<close> for two nodes of the operator's
  dictionary, given by their keys.\<close>

definition link_by_key :: "string \<Rightarrow> string \<Rightarrow> string \<Rightarrow> nat \<Rightarrow> blend \<Rightarrow> unit outcome \<times> blend" where
  "link_by_key m from_key to_key ti b =
     (case map_of (texture_nodes b) m of
        None \<Rightarrow> (Raised KeyError, b)
      | Some d \<Rightarrow>
          (case map_of d from_key of
             None \<Rightarrow> (Raised KeyError, b)
           | Some fn \<Rightarrow>
               (case map_of d to_key of
                  None \<Rightarrow> (Raised KeyError, b)
                | Some tn \<Rightarrow>
                    (case tree_of m b of
                       None \<Rightarrow> (Raised ReferenceError, b)
                     | Some t \<Rightarrow>
                         (case find (\<lambda>nd. node_id nd = fn) (nodes t) of
                            None \<Rightarrow> (Raised ReferenceError, b)
                          | Some nd \<Rightarrow>
                              (case links_new fn (first_output (node_type nd)) tn ti t of
                                 None \<Rightarrow> (Raised ReferenceError, b)
                               | Some t' \<Rightarrow> (Return (), set_tree m t' b)))))))"

definition new_node_by_key :: "string \<Rightarrow> string \<Rightarrow> string \<Rightarrow> blend \<Rightarrow> nat outcome \<times> blend" where
  "new_node_by_key m ty key b =
     (case tree_of m b of
        None \<Rightarrow> (Raised ReferenceError, b)
      | Some t \<Rightarrow>
          (Return (fst (nodes_new ty t)),
           set_texture_node m key (fst (nodes_new ty t)) (set_tree m (snd (nodes_new ty t)) b)))"

text \<open>
  The Principled shader and its wiring, built when the textures are to be used or the
  model is to be exported, and some channel is baked:
  \<^verbatim>\<open>
  principled_node = node_tree.nodes.new('ShaderNodeBsdfPrincipled')
  self.texture_nodes[node_tree]["principled"] = principled_node
  if "diffuse" in self.textures_to_create: ... principled_node.inputs[0]
  if "roughness" in self.textures_to_create: ... principled_node.inputs[9]
  if "normal" in self.textures_to_create:
      normal_map_node = nodes.new("ShaderNodeNormalMap")
      self.texture_nodes[node_tree]["normal_map_node"] = normal_map_node
      ... normal_map_node.inputs[1]; ... principled_node.inputs[22]
  if "alpha" in self.textures_to_create: ... principled_node.inputs[21]
  \<close>
\<close>

definition wire_principled :: "string \<Rightarrow> blend \<Rightarrow> nat option outcome \<times> blend" where
  "wire_principled m b =
     then_do (new_node_by_key m ''BSDF_PRINCIPLED'' ''principled'' b) (\<lambda>pid b1.
     then_do (if ''diffuse'' \<in> set (textures_to_create b1)
              then link_by_key m ''diffuse'' ''principled'' 0 b1 else (Return (), b1)) (\<lambda>_ b2.
     then_do (if ''roughness'' \<in> set (textures_to_create b2)
              then link_by_key m ''roughness'' ''principled'' 9 b2 else (Return (), b2)) (\<lambda>_ b3.
     then_do (if ''normal'' \<in> set (textures_to_create b3)
              then then_do (new_node_by_key m ''NORMAL_MAP'' ''normal_map_node'' b3) (\<lambda>_ b4.
                   then_do (link_by_key m ''normal'' ''normal_map_node'' 1 b4) (\<lambda>_ b5.
                   link_by_key m ''normal_map_node'' ''principled'' 22 b5))
              else (Return (), b3)) (\<lambda>_ b6.
     then_do (if ''alpha'' \<in> set (textures_to_create b6)
              then link_by_key m ''alpha'' ''principled'' 21 b6 else (Return (), b6)) (\<lambda>_ b7.
     (Return (Some pid), b7))))))"

text \<open>The output node is the last node of type \<open>OUTPUT_MATERIAL\<close> the loop over the nodes
  meets.\<close>

definition find_output_node :: "node_tree \<Rightarrow> node option" where
  "find_output_node t =
     (case filter (\<lambda>nd. node_type nd = ''OUTPUT_MATERIAL'') (nodes t) of
        [] \<Rightarrow> None
      | nd # nds \<Rightarrow> Some (last (nd # nds)))"

text \<open>
  \<^verbatim>\<open>prepare_new_nodes(self, context, node_tree, connect_to_outputs)\<close>. Without an output
  node it returns \<open>False\<close> before anything is created. The link that feeds the Surface
  input is read with \<^verbatim>\<open>links[0]\<close>, which raises when nothing is connected. Then the
  dictionary entry of the tree is started afresh, the texture nodes are created, the
  shader is wired, and the closures are appended:
  \<^verbatim>\<open>
  if baker.use_texture or baker.export_after:
      connect_to_output = lambda: node_tree.links.new(principled_node.outputs[0], output_node.inputs[0])
      connect_to_outputs["new"].append(connect_to_output)
      if not baker.use_texture:
          connect_old_to_output = lambda: node_tree.links.new(
              old_node_connected_to_output.outputs[old_node_connected_socket], output_node.inputs[0])
          connect_to_outputs["old"].append(connect_old_to_output)
  return True
  \<close>
\<close>

definition prepare_new_nodes ::
  "string \<Rightarrow> connect_to_outputs \<Rightarrow> blend \<Rightarrow> (bool \<times> connect_to_outputs) outcome \<times> blend" where
  "prepare_new_nodes m co b =
     (case tree_of m b of
        None \<Rightarrow> (Raised ReferenceError, b)
      | Some t \<Rightarrow>
          (case find_output_node t of
             None \<Rightarrow> (Return (False, co), b)
           | Some output_node \<Rightarrow>
               (case filter (\<lambda>l. to_node l = node_id output_node \<and> to_input l = 0) (links t) of
                  [] \<Rightarrow> (Raised IndexError, b)
                | old # _ \<Rightarrow>
                    (let b1 = b\<lparr>texture_nodes := AList.update m [] (texture_nodes b)\<rparr>
                     in then_do (create_texture_nodes m (textures_to_create b1) b1) (\<lambda>_ b2.
                        then_do (if (use_texture (baker b2) \<or> export_after (baker b2))
                                    \<and> textures_to_create b2 \<noteq> []
                                 then wire_principled m b2 else (Return None, b2)) (\<lambda>principled b3.
                        (Return (True,
                           if use_texture (baker b3) \<or> export_after (baker b3) then
                             \<lparr>co_new = co_new co @ [Reconnect m principled ''BSDF'' (node_id output_node)],
                              co_old = (if \<not> use_texture (baker b3)
                                        then co_old co @ [Reconnect m (Some (from_node old))
                                                            (from_socket old) (node_id output_node)]
                                        else co_old co)\<rparr>
                           else co), b3)))))))"

text \<open>
  \<^verbatim>\<open>
  def set_nodes_as_active(self, texture_type):
      for node_tree, tex_nodes in self.texture_nodes.items():
          nodes = node_tree.nodes
          texture_node = tex_nodes[texture_type]
          nodes.active = texture_node
  \<close>
\<close>

fun set_active_loop ::
  "string \<Rightarrow> (string, (string, nat) dict) dict \<Rightarrow> blend \<Rightarrow> unit outcome \<times> blend" where
  "set_active_loop key [] b = (Return (), b)"
| "set_active_loop key ((m, d) # rest) b =
     (case map_of d key of
        None \<Rightarrow> (Raised KeyError, b)
      | Some nid \<Rightarrow>
          (case tree_of m b of
             None \<Rightarrow> (Raised ReferenceError, b)
           | Some t \<Rightarrow> set_active_loop key rest (set_tree m (t\<lparr>active_node := Some nid\<rparr>) b)))"

definition set_nodes_as_active :: "string \<Rightarrow> blend \<Rightarrow> unit outcome \<times> blend" where
  "set_nodes_as_active texture_type b = set_active_loop texture_type (texture_nodes b) b"

section \<open>Export simplifier: baking\<close>

text \<open>The channels \<^verbatim>\<open>bake_kwargs\<close> has an entry for.\<close>

definition bake_kwargs :: "string list" where
  "bake_kwargs = [''diffuse'', ''alpha'', ''glossy'', ''normal'', ''roughness'']"

text \<open>
  The body of the \<^verbatim>\<open>try\<close>:
  \<^verbatim>\<open>
  for map_name in self.textures_to_create:
      self.set_nodes_as_active(map_name)
      bpy.ops.object.bake(**bake_kwargs[map_name])
  \<close>
  What the bake writes into the images is not modelled; it may raise.
\<close>

fun bake_loop :: "host \<Rightarrow> string list \<Rightarrow> blend \<Rightarrow> unit outcome \<times> blend" where
  "bake_loop h [] b = (Return (), b)"
| "bake_loop h (map_name # rest) b =
     (case set_nodes_as_active map_name b of
        (Raised e, b1) \<Rightarrow> (Raised e, b1)
      | (Return _, b1) \<Rightarrow>
          if map_name \<notin> set bake_kwargs then (Raised KeyError, b1)
          else if bake_raises h map_name then (Raised RuntimeError, b1)
          else bake_loop h rest b1)"

text \<open>Calling a deferred connection, and a list of them in order.\<close>

definition run_reconnect :: "reconnect \<Rightarrow> blend \<Rightarrow> unit outcome \<times> blend" where
  "run_reconnect c b =
     (case c of
        Reconnect m src sock out \<Rightarrow>
          (case src of
             None \<Rightarrow> (Raised NameError, b)
           | Some fn \<Rightarrow>
               (case tree_of m b of
                  None \<Rightarrow> (Raised ReferenceError, b)
                | Some t \<Rightarrow>
                    (case links_new fn sock out 0 t of
                       None \<Rightarrow> (Raised ReferenceError, b)
                     | Some t' \<Rightarrow> (Return (), set_tree m t' b)))))"

fun run_connects :: "reconnect list \<Rightarrow> blend \<Rightarrow> unit outcome \<times> blend" where
  "run_connects [] b = (Return (), b)"
| "run_connects (c # rest) b =
     (case run_reconnect c b of
        (Raised e, b1) \<Rightarrow> (Raised e, b1)
      | (Return _, b1) \<Rightarrow> run_connects rest b1)"

text \<open>
  \<^verbatim>\<open>bpy.ops.simplifier.export()\<close>: the host runs the export operator. A call through
  \<^verbatim>\<open>bpy.ops\<close> raises \<^verbatim>\<open>RuntimeError\<close> when the operator raised or reported an error.
\<close>

definition call_export_operator :: "host \<Rightarrow> blend \<Rightarrow> unit outcome \<times> blend" where
  "call_export_operator h b =
     (case export_execute h b of
        (Raised e, b1) \<Rightarrow> (Raised RuntimeError, b1)
      | (Return _, b1) \<Rightarrow>
          if ''ERROR'' \<in> set (map fst (drop (length (reports b)) (reports b1)))
          then (Raised RuntimeError, b1)
          else (Return (), b1))"

text \<open>
  The first loop of \<^verbatim>\<open>bake_textures\<close>:
  \<^verbatim>\<open>
  for material in materials:
      material.use_nodes = True
      node_tree = material.node_tree
      if not self.prepare_new_nodes(context, node_tree, connect_to_outputs):
          self.report({'ERROR'}, "Output node is missing in %s material." % material.name)
          return False
  \<close>
  The result tells whether the loop ran through.
\<close>

definition enable_nodes :: "string \<Rightarrow> blend \<Rightarrow> blend" where
  "enable_nodes m b =
     b\<lparr>materials := map (\<lambda>(k, md). if k = m then (k, md\<lparr>use_nodes := True\<rparr>) else (k, md))
                        (materials b)\<rparr>"

fun prepare_all ::
  "string list \<Rightarrow> connect_to_outputs \<Rightarrow> blend \<Rightarrow> (bool \<times> connect_to_outputs) outcome \<times> blend" where
  "prepare_all [] co b = (Return (True, co), b)"
| "prepare_all (m # rest) co b =
     (case prepare_new_nodes m co (enable_nodes m b) of
        (Raised e, b1) \<Rightarrow> (Raised e, b1)
      | (Return (ok, co1), b1) \<Rightarrow>
          if ok then prepare_all rest co1 b1
          else (Return (False, co1),
                report ''ERROR'' (''Output node is missing in '' @ m @ '' material.'') b1))"

text \<open>
  The end of \<^verbatim>\<open>bake_textures\<close>, after the renderer has been switched back:
  \<^verbatim>\<open>
  if not self.save_textures(context):
      self.clean_up(context)
  if baker.use_texture or baker.export_after:
      for connect in connect_to_outputs["new"]:
          connect()
      if baker.export_after:
          bpy.ops.simplifier.export()
      if not baker.use_texture:
          for connect in connect_to_outputs["old"]:
              connect()
  if not baker.use_texture:
      self.clean_up(context)
  if "glossy" in self.textures_to_create and baker.use_texture:
      self.clean_up(context, "glossy")
  return True
  \<close>
\<close>

definition after_bake :: "host \<Rightarrow> connect_to_outputs \<Rightarrow> blend \<Rightarrow> bool outcome \<times> blend" where
  "after_bake h co b =
     then_do (save_textures h b) (\<lambda>saved b1.
     then_do (if \<not> saved then clean_up None b1 else (Return (), b1)) (\<lambda>_ b2.
     then_do (if use_texture (baker b2) \<or> export_after (baker b2) then
                then_do (run_connects (co_new co) b2) (\<lambda>_ b3.
                then_do (if export_after (baker b3) then call_export_operator h b3
                         else (Return (), b3)) (\<lambda>_ b4.
                if \<not> use_texture (baker b4) then run_connects (co_old co) b4
                else (Return (), b4)))
              else (Return (), b2)) (\<lambda>_ b5.
     then_do (if \<not> use_texture (baker b5) then clean_up None b5 else (Return (), b5)) (\<lambda>_ b6.
     then_do (if ''glossy'' \<in> set (textures_to_create b6) \<and> use_texture (baker b6)
              then clean_up (Some ''glossy'') b6 else (Return (), b6)) (\<lambda>_ b7.
     (Return True, b7))))))"

text \<open>
  \<^verbatim>\<open>bake_textures(self, context, materials)\<close>. The renderer is remembered and switched to
  Cycles, the device is set from the bake settings, and the \<^verbatim>\<open>try\<close> statement is
  \<^verbatim>\<open>
  try:
      (the bake loop)
  except RuntimeError:
      self.report({'ERROR'}, "Texture name refers to image which was deleted on disk, ...")
      self.clean_up(context)
      return False
  finally:
      bpy.context.scene.render.engine = renderer_used
  \<close>
  so the renderer is written back on every way out of it, also when the handler raises.
\<close>

definition bake_textures :: "host \<Rightarrow> string list \<Rightarrow> blend \<Rightarrow> bool outcome \<times> blend" where
  "bake_textures h mats b =
     (case prepare_all mats \<lparr>co_new = [], co_old = []\<rparr> (b\<lparr>texture_nodes := []\<rparr>) of
        (Raised e, b1) \<Rightarrow> (Raised e, b1)
      | (Return (ok, co), b1) \<Rightarrow>
          if \<not> ok then (Return False, b1)
          else
            (let renderer_used = render_engine b1;
                 b2 = b1\<lparr>render_engine := ''CYCLES'', cycles_device := device (baker b1)\<rparr>
             in case bake_loop h (textures_to_create b2) b2 of
                  (Raised e, b3) \<Rightarrow>
                    if e = RuntimeError then
                      (case clean_up None
                              (report ''ERROR''
                                 ''Texture name refers to image which was deleted on disk, please use another name.''
                                 b3) of
                         (Raised e', b4) \<Rightarrow> (Raised e', b4\<lparr>render_engine := renderer_used\<rparr>)
                       | (Return _, b4) \<Rightarrow> (Return False, b4\<lparr>render_engine := renderer_used\<rparr>))
                    else (Raised e, b3\<lparr>render_engine := renderer_used\<rparr>)
                | (Return _, b3) \<Rightarrow> after_bake h co (b3\<lparr>render_engine := renderer_used\<rparr>)))"

text \<open>
  The list comprehension of \<^verbatim>\<open>execute\<close>:
  \<^verbatim>\<open>
  selected_materials = [
      mat.material for mat in scene.material_group if
      mat.selected is True and mat.material.name in context.active_object.material_slots
  ]
  \<close>
\<close>

fun selected_materials :: "material_item list \<Rightarrow> blend \<Rightarrow> string list outcome" where
  "selected_materials [] b = Return []"
| "selected_materials (mat # rest) b =
     (if selected mat then
        (case material mat of
           None \<Rightarrow> Raised AttributeError
         | Some m \<Rightarrow>
             (case active_object b of
                None \<Rightarrow> Raised AttributeError
              | Some ob \<Rightarrow>
                  (case selected_materials rest b of
                     Raised e \<Rightarrow> Raised e
                   | Return ms \<Rightarrow>
                       Return (if m \<in> set (map slot_name (material_slots ob)) then m # ms else ms))))
      else selected_materials rest b)"

text \<open>The state a new operator instance starts from: the unwrap flag reset, the
  operator's own attributes empty.\<close>

definition fresh_run :: "blend \<Rightarrow> blend" where
  "fresh_run b = b\<lparr>model_unwrapped := False, texture_nodes := [], textures_to_create := []\<rparr>"

text \<open>The message of the UV check, with the line break the source has in it.\<close>

definition uv_message :: string where
  "uv_message = ''Object has no UV map and unwrap is not selected.'' @ [CHR 0x0A]
     @ ''            Please check the unwrap option or unwrap model manually.''"

text \<open>
  \<^verbatim>\<open>SIMPLIFIER_OT_bake.execute\<close>. Every invocation runs on a new operator instance,
  whose \<^verbatim>\<open>texture_nodes\<close> and \<^verbatim>\<open>textures_to_create\<close> are the empty class attributes.
  The checks come in the order of the source: the bake switch, the number of selected
  objects, the export directory (only when exporting afterwards), then the unwrap or the
  check for a UV map, the selected materials, the textures, the bake. The UV map is read
  as \<^verbatim>\<open>bpy.context.object.data.uv_layers\<close>: without an active object, and on an object
  whose data is not a mesh, that is an \<^verbatim>\<open>AttributeError\<close>.
\<close>

definition bake_execute :: "host \<Rightarrow> blend \<Rightarrow> status outcome \<times> blend" where
  "bake_execute h b0 =
     (let b = fresh_run b0
      in if \<not> bake (simplifier b) then (Return CANCELLED, b)
         else if length (selected_objects b) \<noteq> 1 then
           (Return CANCELLED, report ''ERROR'' ''One object needs to be selected'' b)
         else if export_after (baker b) \<and> export_dir (simplifier b) \<notin> set (fs_paths b) then
           (Return CANCELLED, report ''ERROR'' ''Cannot access chosen dir.'' b)
         else
           then_do (if unwrap_model (simplifier b) then unwrap b else (Return (), b)) (\<lambda>_ b1.
             case (if \<not> unwrap_model (simplifier b1)
                   then (case active_object b1 of
                           None \<Rightarrow> Raised AttributeError
                         | Some ob \<Rightarrow>
                             if obj_type ob \<noteq> ''MESH'' then Raised AttributeError
                             else Return (uv_layers ob = []))
                   else Return False) of
                 Raised e \<Rightarrow> (Raised e, b1)
               | Return no_uv \<Rightarrow>
                   if no_uv then
                     then_do (clean_up None (report ''ERROR'' uv_message b1))
                       (\<lambda>_ b2. (Return CANCELLED, b2))
                   else
                     (case selected_materials (material_group b1) b1 of
                        Raised e \<Rightarrow> (Raised e, b1)
                      | Return mats \<Rightarrow>
                          if mats = [] then
                            (Return CANCELLED, report ''ERROR'' ''No materials selected'' b1)
                          else
                            then_do (generate_texture (texture_name (baker b1)) b1) (\<lambda>generated b2.
                              if \<not> generated then
                                then_do (clean_up None b2) (\<lambda>_ b3. (Return CANCELLED, b3))
                              else
                                then_do (bake_textures h mats b2) (\<lambda>baked b3.
                                  if \<not> baked then
                                    then_do (clean_up None b3) (\<lambda>_ b4. (Return CANCELLED, b4))
                                  else (Return FINISHED, b3))))))"

section \<open>Notions the properties are stated in\<close>

text \<open>
  What the validation of the bake operator comes to on a state with baking switched on
  and one object selected, in the order in which \<^verbatim>\<open>execute\<close> makes the checks: the
  message of the first check that fails, \<open>None\<close> when every check passes, and the
  exception when \<^verbatim>\<open>execute\<close> raises on the way (out of \<^verbatim>\<open>unwrap\<close>, out of the read of
  the UV map, or out of the list of materials). The checks are: the export directory
  exists (when exporting afterwards), the object has a UV map (when the unwrap option
  is off), a ticked material is on the object, the texture name is not blank.
\<close>

definition validation_error :: "blend \<Rightarrow> string option outcome" where
  "validation_error b =
     (if export_after (baker b) \<and> export_dir (simplifier b) \<notin> set (fs_paths b)
        then Return (Some ''Cannot access chosen dir.'')
      else
        (case (if unwrap_model (simplifier b)
               then (case fst (unwrap (fresh_run b)) of
                       Raised e \<Rightarrow> Raised e
                     | Return _ \<Rightarrow> Return False)
               else (case active_object b of
                       None \<Rightarrow> Raised AttributeError
                     | Some ob \<Rightarrow>
                         if obj_type ob \<noteq> ''MESH'' then Raised AttributeError
                         else Return (uv_layers ob = []))) of
           Raised e \<Rightarrow> Raised e
         | Return no_uv \<Rightarrow>
             if no_uv then Return (Some uv_message)
             else
               (case selected_materials (material_group b) b of
                  Raised e \<Rightarrow> Raised e
                | Return mats \<Rightarrow>
                    if mats = [] then Return (Some ''No materials selected'')
                    else if strip (texture_name (baker b)) = [] then
                      Return (Some ''No texture name set.'')
                    else Return None)))"

text \<open>The state in which the checks after the directory check are made: the one the
  unwrap returned when the unwrap option is on, the entry state otherwise.\<close>

definition checked_state :: "blend \<Rightarrow> blend" where
  "checked_state b =
     (if unwrap_model (simplifier b) then snd (unwrap (fresh_run b)) else fresh_run b)"

text \<open>
  What an unwrap may change and what it must leave alone. It works on the mode, the
  scale and the UV layers of objects and sets the unwrap flag; \<open>outside_unwrap\<close> blanks
  exactly these, so that two states with the same \<open>outside_unwrap\<close> agree on everything
  else. After an unwrap the scale of every selected object is the unit scale, and the
  first UV layer of the active object is the host's smart projection.
\<close>

definition unshaped :: "object3d \<Rightarrow> object3d" where
  "unshaped ob = ob\<lparr>obj_mode := [], obj_scale := (0, 0, 0), uv_layers := []\<rparr>"

definition outside_unwrap :: "blend \<Rightarrow> blend" where
  "outside_unwrap b = b\<lparr>objects := map unshaped (objects b), model_unwrapped := False\<rparr>"

definition scale_applied :: "blend \<Rightarrow> bool" where
  "scale_applied b = list_all (\<lambda>ob. obj_scale ob = (1, 1, 1)) (selected_objects b)"

definition smart_projected :: "blend \<Rightarrow> bool" where
  "smart_projected b =
     (case active_object b of
        None \<Rightarrow> False
      | Some act \<Rightarrow> (case uv_layers act of [] \<Rightarrow> False | (n, uv) # rest \<Rightarrow> uv = SmartProject))"

text \<open>The image that decides \<^verbatim>\<open>texture_exists\<close> for a name is the first one of that name;
  the name is in conflict when that image has another size than the one asked for.\<close>

definition conflicting :: "string \<Rightarrow> bake_data \<Rightarrow> image list \<Rightarrow> bool" where
  "conflicting n bk imgs =
     (case find (\<lambda>img. img_name img = n) imgs of
        None \<Rightarrow> False
      | Some img \<Rightarrow> img_size img \<noteq> (width bk, height bk))"

text \<open>The image the operator creates under the name \<open>n\<close>, for a name within the
  host's limit.\<close>

definition new_image :: "string \<Rightarrow> bake_data \<Rightarrow> image" where
  "new_image n bk =
     \<lparr>img_name = n, img_size = (max 1 (width bk), max 1 (height bk)), colorspace = ''sRGB'',
      filepath_raw = [], file_format = ''TARGA''\<rparr>"

text \<open>
  The channels a bake asks for, in the order in which they are iterated; the name
  derived for a channel; and whether the channel is in conflict with an image.
\<close>

definition requested :: "blend \<Rightarrow> string list" where
  "requested b = remdups (map lower (bake_types (baker b)))"

definition derived_name :: "blend \<Rightarrow> string \<Rightarrow> string" where
  "derived_name b c = texture_name (baker b) @ ''_'' @ c"

definition channel_conflict :: "blend \<Rightarrow> string \<Rightarrow> bool" where
  "channel_conflict b c = conflicting (derived_name b c) (baker b) (images b)"

text \<open>The render settings a bake touches, together with the bake settings they are set
  from.\<close>

definition render_settings :: "blend \<Rightarrow> string \<times> string \<times> bake_data" where
  "render_settings b = (render_engine b, cycles_device b, baker b)"

text \<open>Whether the first loop of \<^verbatim>\<open>bake_textures\<close> runs through for the given materials,
  so that the renderer is switched.\<close>

definition prepared :: "string list \<Rightarrow> blend \<Rightarrow> bool" where
  "prepared mats b =
     (case fst (prepare_all mats \<lparr>co_new = [], co_old = []\<rparr> (b\<lparr>texture_nodes := []\<rparr>)) of
        Raised e \<Rightarrow> False
      | Return r \<Rightarrow> fst r)"

section \<open>Concrete scenes\<close>

text \<open>
  A saved, empty file with the add-on's properties at the defaults their declarations
  give them, and a visible mesh object in object mode with unit scale; the concrete
  scenes below are built from these two.
\<close>

definition empty_blend :: blend where
  "empty_blend =
     \<lparr>objects = [], active = None, collections = [], blend_filepath = ''/work/scene.blend'',
      model_unwrapped = False,
      simplifier = \<lparr>export_dir = '''', format = ''FBX'', gltf_format = ''GLTF_SEPARATE'',
                    software = ''UNREAL'', unwrap_model = False, bake = False\<rparr>,
      baker = \<lparr>texture_name = '''', width = 1024, height = 1024, use_texture = False,
               bake_types = [''DIFFUSE''], device = ''CPU'', export_after = False\<rparr>,
      material_group = [], custom_index = 0, images = [], materials = [],
      render_engine = ''BLENDER_EEVEE'', cycles_device = ''CPU'', fs_paths = [],
      reports = [], export_calls = [], texture_nodes = [], textures_to_create = []\<rparr>"

definition mesh_object :: "string \<Rightarrow> object3d" where
  "mesh_object n =
     \<lparr>obj_name = n, obj_type = ''MESH'', obj_visible = True, obj_select = False,
      obj_mode = ''OBJECT'', obj_location = (0, 0, 0), obj_rotation = (0, 0, 0),
      obj_scale = (1, 1, 1), uv_layers = [], material_slots = [], active_material_index = 0,
      users_collection = [''Collection'']\<rparr>"

definition slot_of :: "string \<Rightarrow> material_slot" where
  "slot_of m = \<lparr>slot_name = m, slot_material = Some m\<rparr>"

definition listed :: "string \<Rightarrow> bool \<Rightarrow> material_item" where
  "listed m sel = \<lparr>item_name = m, material = Some m, selected = sel\<rparr>"

text \<open>A cube with three material slots; the list shows two of the materials, the first
  of them ticked.\<close>

definition cube_three_slots :: blend where
  "cube_three_slots =
     empty_blend\<lparr>
       objects := [(mesh_object ''Cube'')\<lparr>material_slots :=
                     [slot_of ''Wood'', slot_of ''Steel'', slot_of ''Glass'']\<rparr>],
       active := Some ''Cube'',
       material_group := [listed ''Wood'' True, listed ''Steel'' False]\<rparr>"

text \<open>A cube that carries the same material in two slots; the user ticked the first of
  the two entries only.\<close>

definition cube_same_material_twice :: blend where
  "cube_same_material_twice =
     empty_blend\<lparr>
       objects := [(mesh_object ''Cube'')\<lparr>material_slots := [slot_of ''Wood'', slot_of ''Wood'']\<rparr>],
       active := Some ''Cube'',
       material_group := [listed ''Wood'' True, listed ''Wood'' False]\<rparr>"

text \<open>A host on which no directory creation, exporter, bake or image save fails.\<close>

definition obliging_host :: host where
  "obliging_host =
     \<lparr>makedirs_outcome = (\<lambda>p. None), exporter_raises = (\<lambda>c. False),
      bake_raises = (\<lambda>t. False), save_raises = (\<lambda>p. False)\<rparr>"

text \<open>
  A scene for the export tester: a cube in the default collection, a table and a chair
  in the collection \<open>Separate_objects\<close>, and a lamp, which is not a mesh. The tester
  exports to \<open>obj\<close> with two option sets and to \<open>stl\<close> with one.
\<close>

definition studio_scene :: blend where
  "studio_scene =
     empty_blend\<lparr>
       objects := [mesh_object ''Cube'',
                   (mesh_object ''Table'')\<lparr>users_collection := [''Separate_objects'']\<rparr>,
                   (mesh_object ''Chair'')\<lparr>users_collection := [''Separate_objects'']\<rparr>,
                   (mesh_object ''Lamp'')\<lparr>obj_type := ''LIGHT''\<rparr>],
       active := Some ''Cube'',
       collections := [(''Collection'', [''Cube'', ''Lamp'']),
                       (''Separate_objects'', [''Table'', ''Chair''])]\<rparr>"

definition studio_tester :: tester where
  "studio_tester =
     \<lparr>export_dir_name = ''exports'', separate_collection = Some ''Separate_objects'',
      tester_export_dir = Some ''/work/exports'', export_enum = ''MODELS'',
      export_options =
        [(''obj'', [(''default'', []), (''scale'', [(''global_scale'', Float 2)])]),
         (''stl'', [(''default'', [])])]\<rparr>"


text \<open>Two meshes whose names begin with a path separator, and a tester with two option
  sets for \<open>obj\<close>.\<close>

definition slash_scene :: blend where
  "slash_scene =
     empty_blend\<lparr>objects := [mesh_object ''/x'', mesh_object ''/x_b''], active := Some ''/x'',
                  collections := [(''Collection'', [''/x'', ''/x_b''])]\<rparr>"

definition slash_tester :: tester where
  "slash_tester =
     studio_tester\<lparr>export_options := [(''obj'', [(''default'', []), (''b_default'', [])])]\<rparr>"

text \<open>A scene for the export operator: a cube and a sphere, both selected, the cube
  active, everything in object mode; the export directory exists.\<close>

definition two_selected :: blend where
  "two_selected =
     empty_blend\<lparr>
       objects := [(mesh_object ''Cube'')\<lparr>obj_select := True\<rparr>,
                   (mesh_object ''Sphere'')\<lparr>obj_select := True\<rparr>],
       active := Some ''Cube'',
       simplifier := (simplifier empty_blend)\<lparr>export_dir := ''/work/out''\<rparr>,
       fs_paths := [''/work/out'']\<rparr>"

text \<open>
  A scene for the bake operator. The material graph every new material has: a shader
  (node 0) feeding the Surface input of the output node (node 1). The cube carries two
  such materials, Wood and Steel, both ticked in the list; it is the one selected object
  and the active one, has a UV map and a scale of 2. Baking is switched on, the texture
  name is \<open>tex\<close>, the only channel is the diffuse one, and the export directory exists.
\<close>

definition default_tree :: node_tree where
  "default_tree =
     \<lparr>nodes = [\<lparr>node_id = 0, node_type = ''BSDF_PRINCIPLED'', node_image = None\<rparr>,
               \<lparr>node_id = 1, node_type = ''OUTPUT_MATERIAL'', node_image = None\<rparr>],
      links = [\<lparr>from_node = 0, from_socket = ''BSDF'', to_node = 1, to_input = 0\<rparr>],
      active_node = None, next_id = 2\<rparr>"

definition bake_scene :: blend where
  "bake_scene =
     empty_blend\<lparr>
       objects := [(mesh_object ''Cube'')\<lparr>obj_select := True, obj_scale := (2, 2, 2),
                     uv_layers := [(''UVMap'', UserUV 0)],
                     material_slots := [slot_of ''Wood'', slot_of ''Steel'']\<rparr>],
       active := Some ''Cube'',
       simplifier := (simplifier empty_blend)\<lparr>export_dir := ''/work/out'', bake := True\<rparr>,
       baker := (baker empty_blend)\<lparr>texture_name := ''tex''\<rparr>,
       material_group := [listed ''Wood'' True, listed ''Steel'' True],
       materials := [(''Wood'', \<lparr>use_nodes = True, tree = default_tree\<rparr>),
                     (''Steel'', \<lparr>use_nodes = True, tree = default_tree\<rparr>)],
       fs_paths := [''/work/out'']\<rparr>"



text \<open>The bake scene asked for the diffuse and the normal channel, iterated in this
  order, with an image \<open>tex_normal\<close> of half the size already there.\<close>

definition half_size_normal :: blend where
  "half_size_normal =
     bake_scene\<lparr>baker := (baker bake_scene)\<lparr>bake_types := [''DIFFUSE'', ''NORMAL'']\<rparr>,
                images := [\<lparr>img_name = ''tex_normal'', img_size = (512, 512),
                            colorspace = ''Non-Color'', filepath_raw = [], file_format = ''PNG''\<rparr>]\<rparr>"

definition resolution_message :: string where
  "resolution_message =
     ''Cannot change resolution of existing texture, delete texture in Blender or use another name.''"

text \<open>A host on which every directory creation is refused for lack of permission, and a
  host on which every bake raises; the bake scene with no channel chosen; the bake scene
  with the Surface input of the second material left unconnected.\<close>

definition read_only_host :: host where
  "read_only_host = obliging_host\<lparr>makedirs_outcome := (\<lambda>p. Some PermissionError)\<rparr>"

definition failing_bake_host :: host where
  "failing_bake_host = obliging_host\<lparr>bake_raises := (\<lambda>t. True)\<rparr>"

definition no_channels :: blend where
  "no_channels = bake_scene\<lparr>baker := (baker bake_scene)\<lparr>bake_types := []\<rparr>\<rparr>"

definition steel_unconnected :: blend where
  "steel_unconnected =
     bake_scene\<lparr>materials := [(''Wood'', \<lparr>use_nodes = True, tree = default_tree\<rparr>),
                               (''Steel'', \<lparr>use_nodes = True, tree = default_tree\<lparr>links := []\<rparr>\<rparr>)]\<rparr>"

text \<open>The bake scene rendered on the GPU so far, after its textures have been generated:
  the state \<^verbatim>\<open>bake_textures\<close> is called in.\<close>

definition gpu_ready :: blend where
  "gpu_ready = snd (generate_texture ''tex'' (bake_scene\<lparr>cycles_device := ''GPU''\<rparr>))"

section \<open>Properties of the option matrix\<close>

text \<open>From here on the file holds theorems only; every definition stands above.\<close>

lemma map_of_comprehension:
  "map_of (foldl (\<lambda>acc v. AList.update (f v) (g v) acc) d0 vs) k =
     (case find (\<lambda>v. f v = k) (rev vs) of Some v \<Rightarrow> Some (g v) | None \<Rightarrow> map_of d0 k)"
proof (induction vs rule: rev_induct)
  case Nil
  show ?case by simp
next
  case (snoc v vs)
  show ?case
    by (simp add: snoc.IH update_conv')
qed

lemma find_rev_last:
  assumes "P v" and "\<forall>w\<in>set post. \<not> P w"
  shows "find P (rev (pre @ v # post)) = Some v"
  using assms by (induction post rule: rev_induct) auto

lemma dict_update_Nil: "dict_update d [] = d"
  by (simp add: dict_update_def)

lemma map_of_expand_raw:
  assumes "vals = pre @ v # post" and "\<forall>w\<in>set post. lower w \<noteq> lower v"
  shows "map_of (foldl (\<lambda>acc x. AList.update (b @ ''_'' @ lower x) [(a, Str x)] acc) [] vals)
           (b @ ''_'' @ lower v) = Some [(a, Str v)]"
proof -
  let ?f = "\<lambda>x. b @ ''_'' @ lower x"
  let ?g = "\<lambda>x. [(a, Str x)]"
  have "find (\<lambda>w. ?f w = ?f v) (rev (pre @ v # post)) = Some v"
    by (rule find_rev_last) (use assms(2) in auto)
  then have "(case find (\<lambda>w. ?f w = ?f v) (rev vals) of Some x \<Rightarrow> Some (?g x) | None \<Rightarrow> map_of [] (?f v))
      = Some (?g v)"
    unfolding assms(1) by (simp only: option.case)
  then show ?thesis
    unfolding map_of_comprehension [of ?f ?g "[]" vals "?f v", symmetric] .
qed

lemma map_of_map_values:
  "map_of (map (\<lambda>(k, x). (k, h x)) d) k = map_option h (map_of d k)"
  by (induction d) auto

text \<open>
  Claim C8. The option-matrix generator maps, for a value \<open>v\<close> of the list,
  \<open>basename + "_" + lowercase(v)\<close> to \<open>{argname: v}\<close> merged with the extra arguments,
  provided no later value of the list has the same lower-case form (the later value would
  take the key); and \<open>expand("scale", "global_scale", ["2.0"])\<close> is exactly
  \<open>{"scale_2.0": {"global_scale": "2.0"}}\<close> merged with any extra arguments.
\<close>

theorem expand_options_entry:
  assumes "vals = pre @ v # post" and "\<forall>w\<in>set post. lower w \<noteq> lower v"
  shows "map_of (expand_options b a vals extra) (b @ ''_'' @ lower v)
           = Some (merged a v extra)
       \<and> expand_options ''scale'' ''global_scale'' [''2.0''] extra
           = [(''scale_2.0'', merged ''global_scale'' ''2.0'' extra)]"
proof
  let ?d = "foldl (\<lambda>acc x. AList.update (b @ ''_'' @ lower x) [(a, Str x)] acc)
              [] vals"
  have raw: "map_of ?d (b @ ''_'' @ lower v) = Some [(a, Str v)]"
    by (rule map_of_expand_raw [OF assms])
  show "map_of (expand_options b a vals extra) (b @ ''_'' @ lower v) = Some (merged a v extra)"
  proof (cases extra)
    case None
    then show ?thesis
      using raw by (simp add: expand_options_def merged_def)
  next
    case (Some e)
    show ?thesis
    proof (cases "e = []")
      case True
      then show ?thesis
        using raw Some by (simp add: expand_options_def merged_def dict_update_Nil)
    next
      case False
      then show ?thesis
        using raw Some by (simp add: expand_options_def merged_def map_of_map_values)
    qed
  qed
  show "expand_options ''scale'' ''global_scale'' [''2.0''] extra
           = [(''scale_2.0'', merged ''global_scale'' ''2.0'' extra)]"
    by (cases extra)
      (auto simp add: expand_options_def merged_def lower_def lower_char_def dict_update_Nil Let_def)
qed

text \<open>The entry theorem at the mesh-smoothing axis of the FBX table, with one extra argument.\<close>

theorem expand_options_entry_witness:
  "[''OFF'', ''FACE'', ''EDGE''] = [''OFF''] @ ''FACE'' # [''EDGE'']
   \<and> lower ''EDGE'' \<noteq> lower ''FACE''
   \<and> map_of (expand_options ''mesh_smooth_type'' ''mesh_smooth_type'' [''OFF'', ''FACE'', ''EDGE'']
        (Some [(''apply_unit_scale'', Bool True)])) (''mesh_smooth_type'' @ ''_'' @ lower ''FACE'')
      = Some [(''mesh_smooth_type'', Str ''FACE''), (''apply_unit_scale'', Bool True)]"
  using expand_options_entry [of "[''OFF'', ''FACE'', ''EDGE'']" "[''OFF'']" "''FACE''" "[''EDGE'']"
      "''mesh_smooth_type''" "''mesh_smooth_type''" "Some [(''apply_unit_scale'', Bool True)]"]
  by (simp add: lower_def lower_char_def merged_def dict_update_def)

text \<open>
  Two values that differ only in case share one key, and the key holds the later value:
  the entry for the first value is not the one the unrestricted statement promises.
\<close>

theorem expand_options_case_collision:
  "map_of (expand_options ''path_mode'' ''path_mode'' [''COPY'', ''copy''] None)
      (''path_mode'' @ ''_'' @ lower ''COPY'') \<noteq> Some (merged ''path_mode'' ''COPY'' None)"
  by (simp add: expand_options_def lower_def lower_char_def merged_def)

section \<open>Properties of the material list\<close>

lemma find_app:
  "find P (xs @ ys) = (case find P xs of None \<Rightarrow> find P ys | Some x \<Rightarrow> Some x)"
  by (induction xs) auto

lemma save_selection_lookup:
  assumes "list_all (\<lambda>it. material it \<noteq> None) items"
  shows "\<exists>d'. save_selection items d = Return d' \<and>
           (\<forall>n. map_of d' n = (case last_flag items n of Some f \<Rightarrow> Some f | None \<Rightarrow> map_of d n))"
  using assms
proof (induction items arbitrary: d)
  case Nil
  show ?case by (simp add: last_flag_def)
next
  case (Cons it items)
  from Cons.prems obtain m where m: "material it = Some m" by auto
  from Cons.prems have rest: "list_all (\<lambda>it. material it \<noteq> None) items" by simp
  obtain d' where d': "save_selection items (AList.update m (selected it) d) = Return d'"
    and look: "\<And>n. map_of d' n = (case last_flag items n of Some f \<Rightarrow> Some f
                 | None \<Rightarrow> map_of (AList.update m (selected it) d) n)"
    using Cons.IH [OF rest, of "AList.update m (selected it) d"] by blast
  have "map_of d' n = (case last_flag (it # items) n of Some f \<Rightarrow> Some f | None \<Rightarrow> map_of d n)" for n
  proof (cases "find (\<lambda>it. material it = Some n) (rev items)")
    case None
    then show ?thesis
      using look [of n] m by (auto simp add: last_flag_def find_app update_conv' split: option.splits)
  next
    case (Some a)
    then show ?thesis
      using look [of n] by (simp add: last_flag_def find_app)
  qed
  then show ?case using d' m by simp
qed

text \<open>
  What a refresh computes. A refresh of the material list against the active object's
  material slots (with every listed entry pointing to a material) finishes and rebuilds
  one entry per slot; the entry is selected exactly if the list had an entry of the
  slot's material name before and the last such entry was selected: the selection is
  remembered in a dictionary keyed by the name, and a later entry of a name overwrites
  an earlier one.
\<close>

theorem material_list_refresh:
  assumes "list_all (\<lambda>it. material it \<noteq> None) (material_group b)"
    and "active_object b = Some ob"
  shows "\<exists>b'. update_material_list b = (Return FINISHED, b') \<and>
           material_group b' =
             map (\<lambda>slot. \<lparr>item_name = slot_name slot, material = slot_material slot,
                           selected = (last_flag (material_group b) (slot_name slot) = Some True)\<rparr>)
               (material_slots ob)"
proof -
  obtain d where d: "save_selection (material_group b) [] = Return d"
    and look: "\<And>n. map_of d n = (case last_flag (material_group b) n of Some f \<Rightarrow> Some f
                 | None \<Rightarrow> map_of [] n)"
    using save_selection_lookup [OF assms(1), of "[]"] by blast
  have flag: "(map_of d n = Some True) = (last_flag (material_group b) n = Some True)" for n
    using look [of n] by (simp split: option.splits)
  have act: "active_object (b\<lparr>material_group := []\<rparr>) = Some ob"
    using assms(2) by (simp add: active_object_def lookup_object_def split: option.splits)
  show ?thesis
    using d act by (simp add: update_material_list_def update_object_def rebuilt_item_def flag)
qed

text \<open>The refresh on the cube with three slots: the ticked material stays ticked, the
  other two entries are not.\<close>

theorem material_list_refresh_witness:
  "list_all (\<lambda>it. material it \<noteq> None) (material_group cube_three_slots)
   \<and> active_object cube_three_slots
       = Some ((mesh_object ''Cube'')\<lparr>material_slots :=
                 [slot_of ''Wood'', slot_of ''Steel'', slot_of ''Glass'']\<rparr>)
   \<and> fst (update_material_list cube_three_slots) = Return FINISHED
   \<and> material_group (snd (update_material_list cube_three_slots))
       = [listed ''Wood'' True, listed ''Steel'' False, listed ''Glass'' False]"
  using material_list_refresh [of cube_three_slots
      "(mesh_object ''Cube'')\<lparr>material_slots :=
         [slot_of ''Wood'', slot_of ''Steel'', slot_of ''Glass'']\<rparr>"]
  by (auto simp add: cube_three_slots_def empty_blend_def mesh_object_def slot_of_def listed_def
      active_object_def lookup_object_def last_flag_def)

text \<open>
  Claim C9. The refresh on a cube that carries one material in two slots, the first of
  the two entries ticked. Before the refresh the material is selected, also in the
  reading of the bake operator; after it no rebuilt entry of that name is selected and
  the bake operator finds no selected material: the flag that was remembered is the one
  of the last entry, not "was selected".
\<close>

theorem material_list_same_name_twice:
  "material (material_group cube_same_material_twice ! 0) = Some ''Wood''
   \<and> selected (material_group cube_same_material_twice ! 0)
   \<and> selected_materials (material_group cube_same_material_twice) cube_same_material_twice
       = Return [''Wood'']
   \<and> fst (update_material_list cube_same_material_twice) = Return FINISHED
   \<and> material_group (snd (update_material_list cube_same_material_twice))
       = [listed ''Wood'' False, listed ''Wood'' False]
   \<and> selected_materials (material_group (snd (update_material_list cube_same_material_twice)))
         (snd (update_material_list cube_same_material_twice))
       = Return []"
  by (simp add: cube_same_material_twice_def empty_blend_def mesh_object_def slot_of_def
      listed_def update_material_list_def active_object_def lookup_object_def
      update_object_def rebuilt_item_def)
section \<open>Properties of the host operators\<close>

lemma then_do_cases:
  assumes "then_do r f = (res, b'')"
  obtains (raised) e where "r = (Raised e, b'')" "res = Raised e"
        | (returned) x b' where "r = (Return x, b')" "f x b' = (res, b'')"
  using assms by (auto simp add: then_do_def split: prod.splits outcome.splits)

lemma filter_map_same:
  assumes "\<And>x. P (f x) = P x"
  shows "filter P (map f xs) = map f (filter P xs)"
  by (induction xs) (simp_all add: assms)

lemma selected_map:
  assumes "\<And>ob. obj_select (f ob) = obj_select ob" and "\<And>ob. obj_name (f ob) = obj_name ob"
  shows "map obj_name (selected_objects (b\<lparr>objects := map f (objects b)\<rparr>))
       = map obj_name (selected_objects b)"
  by (simp add: selected_objects_def filter_map_same [of obj_select f, OF assms(1)] comp_def assms(2))

lemma mode_set_result:
  assumes "mode_set m b = (r, b')"
  shows "b' = b \<or>
         (\<exists>act. active_object b = Some act \<and> m \<in> set (object_modes (obj_type act)) \<and> r = Return ()
            \<and> b' = b\<lparr>objects := map (\<lambda>ob. if obj_name ob = obj_name act
                                                \<or> (obj_select ob \<and> obj_type ob = obj_type act)
                                             then ob\<lparr>obj_mode := m\<rparr> else ob) (objects b)\<rparr>)"
  using assms by (auto simp add: mode_set_def split: option.splits if_splits)

lemma mode_set_selected:
  assumes "mode_set m b = (r, b')"
  shows "map obj_name (selected_objects b') = map obj_name (selected_objects b)"
  using mode_set_result [OF assms]
proof (elim disjE exE conjE)
  assume "b' = b"
  then show ?thesis by simp
next
  fix act
  assume "b' = b\<lparr>objects := map (\<lambda>ob. if obj_name ob = obj_name act
                                           \<or> (obj_select ob \<and> obj_type ob = obj_type act)
                                        then ob\<lparr>obj_mode := m\<rparr> else ob) (objects b)\<rparr>"
  then show ?thesis
    by (simp only:) (rule selected_map; simp)
qed

lemma select_object_frame:
  assumes "select_object n b = (Return u, b1)"
  shows "map unsel (objects b1) = map unsel (objects b) \<and> export_calls b1 = export_calls b \<and>
         set (map obj_name (selected_objects b1)) \<subseteq> {n}"
  using assms
  by (auto simp add: select_object_def deselect_all_objects_def update_object_def unsel_def
      selected_objects_def Let_def split: option.splits)

lemma then_do_inv:
  assumes "then_do r f = (res, b'')"
    and "\<And>x b'. r = (x, b') \<Longrightarrow> Q b'"
    and "\<And>x b' y c. Q b' \<Longrightarrow> f x b' = (y, c) \<Longrightarrow> Q c"
  shows "Q b''"
  using assms(1)
proof (cases rule: then_do_cases)
  case (raised e)
  then show ?thesis using assms(2) by blast
next
  case (returned x b')
  then show ?thesis using assms(2,3) by blast
qed

lemma unshaped_fields [simp]:
  "obj_name (unshaped ob) = obj_name ob"
  "obj_select (unshaped ob) = obj_select ob"
  "obj_type (unshaped ob) = obj_type ob"
  "material_slots (unshaped ob) = material_slots ob"
  by (simp_all add: unshaped_def)

lemma outside_transform_apply:
  "transform_apply False False True b = (r, b') \<Longrightarrow> outside_unwrap b' = outside_unwrap b"
  by (auto simp add: transform_apply_def outside_unwrap_def unshaped_def comp_def split: if_splits)

lemma outside_mode_set:
  "mode_set m b = (r, b') \<Longrightarrow> outside_unwrap b' = outside_unwrap b"
  by (auto simp add: mode_set_def outside_unwrap_def unshaped_def comp_def split: option.splits if_splits)

lemma outside_mesh_select_all:
  "mesh_select_all b = (r, b') \<Longrightarrow> outside_unwrap b' = outside_unwrap b"
  by (auto simp add: mesh_select_all_def split: if_splits)

lemma outside_smart_project:
  "smart_project b = (r, b') \<Longrightarrow> outside_unwrap b' = outside_unwrap b"
  by (auto simp add: smart_project_def outside_unwrap_def unshaped_def comp_def split: if_splits)

lemma outside_flag: "outside_unwrap (b\<lparr>model_unwrapped := u\<rparr>) = outside_unwrap b"
  by (simp add: outside_unwrap_def)

lemma outside_unwrap_unwrap:
  assumes "unwrap b = (r, b')"
  shows "outside_unwrap b' = outside_unwrap b"
proof (cases "model_unwrapped b")
  case True
  with assms show ?thesis by (simp add: unwrap_def)
next
  case False
  with assms have "then_do (transform_apply False False True b) (\<lambda>_ b1.
        then_do (mode_set ''EDIT'' b1) (\<lambda>_ b2.
        then_do (mesh_select_all b2) (\<lambda>_ b3.
        then_do (smart_project b3) (\<lambda>_ b4.
        then_do (mode_set ''OBJECT'' b4) (\<lambda>_ b5.
          (Return (), b5\<lparr>model_unwrapped := True\<rparr>)))))) = (r, b')"
    by (simp add: unwrap_def)
  then show ?thesis
    by (elim then_do_inv [where Q = "\<lambda>s. outside_unwrap s = outside_unwrap b"])
      (auto dest: outside_transform_apply outside_mode_set outside_mesh_select_all
         outside_smart_project simp add: outside_flag)
qed

lemma find_map_same:
  assumes "\<And>x. P (f x) = P x"
  shows "find P (map f xs) = map_option f (find P xs)"
  by (induction xs) (simp_all add: assms)

lemma active_object_map:
  assumes "\<And>ob. obj_name (f ob) = obj_name ob"
  shows "active_object (b\<lparr>objects := map f (objects b)\<rparr>) = map_option f (active_object b)"
  by (cases "active b")
    (simp_all add: active_object_def lookup_object_def find_map_same [of _ f] assms)

lemma transform_apply_result:
  assumes "transform_apply l ro s b = (r, b')"
  shows "b' = b \<or>
         (r = Return ()
          \<and> b' = b\<lparr>objects :=
                 map (\<lambda>ob. if obj_select ob
                           then ob\<lparr>obj_location := (if l then (0, 0, 0) else obj_location ob),
                                   obj_rotation := (if ro then (0, 0, 0) else obj_rotation ob),
                                   obj_scale := (if s then (1, 1, 1) else obj_scale ob)\<rparr>
                           else ob) (objects b)\<rparr>)"
  using assms by (auto simp add: transform_apply_def split: if_splits)







lemma flag_frame [simp]:
  "active_object (b\<lparr>model_unwrapped := u\<rparr>) = active_object b"
  "selected_objects (b\<lparr>model_unwrapped := u\<rparr>) = selected_objects b"
  by (simp_all add: active_object_def lookup_object_def selected_objects_def split: option.splits)


lemma unwrap_raised:
  assumes "unwrap b = (Raised e, b')"
  shows "model_unwrapped b' = model_unwrapped b"
proof -
  have "model_unwrapped (outside_unwrap s) = False" for s
    by (simp add: outside_unwrap_def)
  from assms have "\<not> model_unwrapped b"
    by (auto simp add: unwrap_def split: if_splits)
  moreover from assms have "\<not> model_unwrapped b'"
    by (auto simp add: unwrap_def then_do_def transform_apply_def mode_set_def mesh_select_all_def
        smart_project_def split: prod.splits outcome.splits if_splits option.splits)
  ultimately show ?thesis by simp
qed
section \<open>Properties of the batch export\<close>



















lemma unsel_fields [simp]:
  "exportable (unsel ob) = exportable ob"
  "in_separate self (unsel ob) = in_separate self ob"
  "obj_name (unsel ob) = obj_name ob"
  by (simp_all add: unsel_def exportable_def in_separate_def)













lemma call_key_run:
  "map call_key (map (tester_call fmt obj_dir oname sel) opts)
     = map (\<lambda>opt. (fmt, fst opt, path_join obj_dir (oname @ ''_'' @ fst opt @ ''.'' @ fmt))) opts"
  by (simp add: call_key_def tester_call_def)















text \<open>The definitions a run on the studio scene unfolds.\<close>

lemmas studio_defs = studio_scene_def studio_tester_def obliging_host_def empty_blend_def mesh_object_def
  perform_export_def tester_create_subdir_def export_one_def select_object_def
  select_objects_in_collection_def deselect_all_objects_def update_object_def lookup_object_def
  selected_objects_def tester_call_def path_join_def EXPORT_FUNCS_def exportable_def in_separate_def



text \<open>Why the names must be free of separators: a name that begins with one makes
  \<^verbatim>\<open>os.path.join\<close> drop the directories, and two of the four calls for \<open>/x\<close> and \<open>/x_b\<close>
  are given the same file.\<close>

lemma separator_in_name_shares_file:
  "fst (export_formats obliging_host slash_tester [''obj''] slash_scene) = Return True
   \<and> map ec_filepath (export_calls
         (snd (export_formats obliging_host slash_tester [''obj''] slash_scene)))
       = [''/x_default.obj'', ''/x_b_default.obj'', ''/x_b_default.obj'', ''/x_b_b_default.obj'']"
  by (simp add: slash_scene_def slash_tester_def studio_defs Let_def)
section \<open>Properties of the export operator\<close>

text \<open>The definitions a run of the export operator unfolds.\<close>

lemmas export_defs = export_execute_def simplifier_perform_export_def set_original_configuration_def
  export_unreal_def call_exporter_def export_clean_up_def delete_def duplicate_def copy_name_def
  create_subdir_def correct_origin_def apply_transform_def transform_apply_def mode_set_def
  object_modes_def unwrap_def smart_project_def mesh_select_all_def edit_mesh_def then_do_def
  report_def select_object_def deselect_all_objects_def
  update_object_def lookup_object_def active_object_def selected_objects_def path_join_def
  lower_def lower_char_def

text \<open>Restoring a remembered selection object by object leaves at most the last object
  selected, whatever the state before: each \<^verbatim>\<open>select_object\<close> deselects all first.\<close>

lemma select_each_last:
  assumes "select_each (pre @ [l]) b = (Return u, b')"
  shows "set (map obj_name (selected_objects b')) \<subseteq> {l}"
  using assms
proof (induction pre arbitrary: b)
  case Nil
  then obtain u1 where "select_object l b = (Return u1, b')"
    by (auto split: prod.splits outcome.splits)
  from select_object_frame [OF this] show ?case by simp
next
  case (Cons n pre)
  then obtain u1 b1 where "select_each (pre @ [l]) b1 = (Return u, b')"
    by (auto split: prod.splits outcome.splits)
  from Cons.IH [OF this] show ?case .
qed

lemma set_original_configuration_last:
  assumes "set_original_configuration m (pre @ [l]) act b = (Return u, b')"
  shows "set (map obj_name (selected_objects b')) \<subseteq> {l}"
proof -
  from assms obtain u1 b1 where run: "select_each (pre @ [l]) b = (Return u1, b1)"
    and b': "mode_set m (b1\<lparr>active := act\<rparr>) = (Return u, b')"
    by (auto simp add: set_original_configuration_def split: prod.splits outcome.splits)
  have "map obj_name (selected_objects b') = map obj_name (selected_objects (b1\<lparr>active := act\<rparr>))"
    by (rule mode_set_selected [OF b'])
  also have "\<dots> = map obj_name (selected_objects b1)"
    by (simp add: selected_objects_def)
  finally show ?thesis
    using select_each_last [OF run] by simp
qed

text \<open>
  Claim C2. The export operator on a cube and a sphere that are both selected: the
  export finishes, and afterwards the sphere alone is selected.
\<close>

theorem export_restores_last_selected_only:
  "map obj_name (selected_objects two_selected) = [''Cube'', ''Sphere'']
   \<and> fst (export_execute obliging_host two_selected) = Return FINISHED
   \<and> map obj_name (selected_objects (snd (export_execute obliging_host two_selected))) = [''Sphere'']"
  by (simp add: two_selected_def empty_blend_def mesh_object_def obliging_host_def export_defs Let_def)

section \<open>Properties of the bake operator: the checks\<close>

text \<open>
  Claim C10. A bake invocation with a number of selected objects other than one is
  cancelled before anything is created: images, materials (and so every shading graph),
  exporter calls and the file system are as before. With baking switched on the error
  "One object needs to be selected" is reported; with baking switched off the operator
  has already cancelled without a report.
\<close>

theorem bake_needs_one_object:
  assumes "length (selected_objects b) \<noteq> 1"
  shows "fst (bake_execute h b) = Return CANCELLED
       \<and> images (snd (bake_execute h b)) = images b
       \<and> materials (snd (bake_execute h b)) = materials b
       \<and> export_calls (snd (bake_execute h b)) = export_calls b
       \<and> fs_paths (snd (bake_execute h b)) = fs_paths b
       \<and> reports (snd (bake_execute h b))
           = (if bake (simplifier b) then reports b @ [(''ERROR'', ''One object needs to be selected'')]
              else reports b)"
  using assms by (simp add: bake_execute_def fresh_run_def Let_def selected_objects_def report_def)

text \<open>Two selected objects with baking switched on: cancelled, with the report.\<close>

theorem bake_needs_one_object_witness:
  "length (selected_objects two_selected) \<noteq> 1
   \<and> fst (bake_execute obliging_host (two_selected\<lparr>simplifier := (simplifier two_selected)\<lparr>bake := True\<rparr>\<rparr>))
       = Return CANCELLED
   \<and> reports (snd (bake_execute obliging_host
        (two_selected\<lparr>simplifier := (simplifier two_selected)\<lparr>bake := True\<rparr>\<rparr>)))
       = [(''ERROR'', ''One object needs to be selected'')]"
  using bake_needs_one_object [of "two_selected\<lparr>simplifier := (simplifier two_selected)\<lparr>bake := True\<rparr>\<rparr>"
      obliging_host]
  by (simp add: two_selected_def empty_blend_def mesh_object_def selected_objects_def)

text \<open>Two selected objects with baking switched off: cancelled, and nothing reported.\<close>

theorem bake_switched_off_is_silent:
  "length (selected_objects two_selected) = 2
   \<and> fst (bake_execute obliging_host two_selected) = Return CANCELLED
   \<and> reports (snd (bake_execute obliging_host two_selected)) = []"
  by (simp add: two_selected_def empty_blend_def mesh_object_def selected_objects_def
      bake_execute_def fresh_run_def Let_def)

section \<open>Properties of the bake operator: validation\<close>

lemma outside_fields:
  assumes "outside_unwrap b' = outside_unwrap b"
  shows "images b' = images b" "materials b' = materials b" "reports b' = reports b"
    "fs_paths b' = fs_paths b" "export_calls b' = export_calls b" "baker b' = baker b"
    "simplifier b' = simplifier b" "texture_nodes b' = texture_nodes b"
    "textures_to_create b' = textures_to_create b" "material_group b' = material_group b"
    "active b' = active b" "map unshaped (objects b') = map unshaped (objects b)"
  using arg_cong [OF assms, of images] arg_cong [OF assms, of materials]
    arg_cong [OF assms, of reports] arg_cong [OF assms, of fs_paths]
    arg_cong [OF assms, of export_calls] arg_cong [OF assms, of baker]
    arg_cong [OF assms, of simplifier] arg_cong [OF assms, of texture_nodes]
    arg_cong [OF assms, of textures_to_create] arg_cong [OF assms, of material_group]
    arg_cong [OF assms, of active] arg_cong [OF assms, of objects]
  by (simp_all add: outside_unwrap_def)

lemma outside_active_slots:
  assumes "outside_unwrap b' = outside_unwrap b"
  shows "map_option material_slots (active_object b') = map_option material_slots (active_object b)"
proof -
  have find: "map_option unshaped (find (\<lambda>ob. obj_name ob = n) (objects b'))
            = map_option unshaped (find (\<lambda>ob. obj_name ob = n) (objects b))" for n
    using find_map_same [of "\<lambda>ob. obj_name ob = n" unshaped "objects b'"]
      find_map_same [of "\<lambda>ob. obj_name ob = n" unshaped "objects b"]
      outside_fields(12) [OF assms]
    by simp
  have "map_option unshaped (active_object b') = map_option unshaped (active_object b)"
    using find outside_fields(11) [OF assms]
    by (simp add: active_object_def lookup_object_def split: option.splits)
  then have "map_option (material_slots \<circ> unshaped) (active_object b')
           = map_option (material_slots \<circ> unshaped) (active_object b)"
    by (simp flip: option.map_comp)
  then show ?thesis
    by (simp add: comp_def)
qed

lemma selected_materials_cong:
  assumes "map_option material_slots (active_object b') = map_option material_slots (active_object b)"
  shows "selected_materials its b' = selected_materials its b"
proof (induction its)
  case Nil
  show ?case by simp
next
  case (Cons it its)
  show ?case
  proof (cases "active_object b")
    case None
    with assms have "active_object b' = None" by simp
    with None Cons show ?thesis by (simp split: option.splits)
  next
    case (Some ob)
    with assms obtain ob' where "active_object b' = Some ob'" "material_slots ob' = material_slots ob"
      by (cases "active_object b'") auto
    with Some Cons show ?thesis by (auto split: option.splits outcome.splits)
  qed
qed

lemma fresh_run_frame:
  "simplifier (fresh_run b) = simplifier b"
  "baker (fresh_run b) = baker b"
  "fs_paths (fresh_run b) = fs_paths b"
  "material_group (fresh_run b) = material_group b"
  "images (fresh_run b) = images b"
  "materials (fresh_run b) = materials b"
  "reports (fresh_run b) = reports b"
  "export_calls (fresh_run b) = export_calls b"
  "objects (fresh_run b) = objects b"
  "selected_objects (fresh_run b) = selected_objects b"
  "active_object (fresh_run b) = active_object b"
  "texture_nodes (fresh_run b) = []"
  "model_unwrapped (fresh_run b) = False"
  by (simp_all add: fresh_run_def selected_objects_def active_object_def lookup_object_def
      split: option.splits)

lemma clean_up_nothing: "texture_nodes b = [] \<Longrightarrow> clean_up s b = (Return (), b)"
  by (simp add: clean_up_def)


lemma report_frame [simp]:
  "active_object (report l m b) = active_object b"
  "selected_objects (report l m b) = selected_objects b"
  "objects (report l m b) = objects b"
  "model_unwrapped (report l m b) = model_unwrapped b"
  "images (report l m b) = images b"
  "materials (report l m b) = materials b"
  "fs_paths (report l m b) = fs_paths b"
  "export_calls (report l m b) = export_calls b"
  "texture_nodes (report l m b) = texture_nodes b"
  "reports (report l m b) = reports b @ [(l, m)]"
  by (simp_all add: report_def active_object_def lookup_object_def selected_objects_def
      split: option.splits)

lemma report_shape [simp]:
  "scale_applied (report l m b) = scale_applied b"
  "smart_projected (report l m b) = smart_projected b"
  by (simp_all add: scale_applied_def smart_projected_def)

lemma checked_state_outside: "outside_unwrap (checked_state b) = outside_unwrap (fresh_run b)"
  by (cases "unwrap (fresh_run b)") (auto simp add: checked_state_def dest: outside_unwrap_unwrap)

lemma checked_state_fields:
  "images (checked_state b) = images b"
  "materials (checked_state b) = materials b"
  "reports (checked_state b) = reports b"
  "fs_paths (checked_state b) = fs_paths b"
  "export_calls (checked_state b) = export_calls b"
  "baker (checked_state b) = baker b"
  "simplifier (checked_state b) = simplifier b"
  "texture_nodes (checked_state b) = []"
  "material_group (checked_state b) = material_group b"
  using outside_fields [OF checked_state_outside, of b]
  by (simp_all add: fresh_run_frame)


lemma checked_state_materials:
  "selected_materials (material_group (checked_state b)) (checked_state b)
     = selected_materials (material_group b) b"
proof -
  have "map_option material_slots (active_object (checked_state b))
      = map_option material_slots (active_object b)"
    using outside_active_slots [OF checked_state_outside, of b]
    by (simp add: fresh_run_frame)
  from selected_materials_cong [OF this] show ?thesis
    by (simp add: checked_state_fields)
qed




lemma bake_validation_raise:
  assumes "bake (simplifier b)" and "length (selected_objects b) = 1"
    and "validation_error b = Raised e"
  shows "bake_execute h b = (Raised e, checked_state b)"
proof -
  let ?c = "checked_state b"
  from assms(3) have nopath: "\<not> (export_after (baker b) \<and> export_dir (simplifier b) \<notin> set (fs_paths b))"
    by (auto simp add: validation_error_def split: if_splits)
  have off: "\<not> unwrap_model (simplifier b) \<Longrightarrow> ?c = fresh_run b"
    by (simp add: checked_state_def)
  have snd_c: "unwrap_model (simplifier b) \<Longrightarrow> unwrap (fresh_run b) = (fst (unwrap (fresh_run b)), ?c)"
    by (simp add: checked_state_def)
  have smc: "selected_materials (material_group b) ?c = selected_materials (material_group b) b"
    using checked_state_materials [of b] by (simp add: checked_state_fields)
  show ?thesis
  proof (cases "unwrap_model (simplifier b)")
    case True
    show ?thesis
    proof (cases "fst (unwrap (fresh_run b))")
      case (Raised e')
      with assms(3) nopath True have "e' = e"
        by (auto simp add: validation_error_def)
      with Raised snd_c [OF True] assms(1,2) nopath True show ?thesis
        by (auto simp add: bake_execute_def Let_def fresh_run_frame then_do_def)
    next
      case (Return u)
      with assms(3) nopath True have sm: "selected_materials (material_group b) b = Raised e"
        by (auto simp add: validation_error_def split: outcome.splits if_splits)
      with Return snd_c [OF True] assms(1,2) nopath True smc show ?thesis
        by (auto simp add: bake_execute_def Let_def fresh_run_frame then_do_def checked_state_fields)
    qed
  next
    case False
    from assms(3) nopath False consider
        (none) "active_object b = None" "e = AttributeError"
      | (other) ob where "active_object b = Some ob" "obj_type ob \<noteq> ''MESH''" "e = AttributeError"
      | (mats) ob where "active_object b = Some ob" "obj_type ob = ''MESH''" "uv_layers ob \<noteq> []"
          "selected_materials (material_group b) b = Raised e"
      by (auto simp add: validation_error_def split: outcome.splits if_splits option.splits)
    then show ?thesis
    proof cases
      case none
      with assms(1,2) nopath False off show ?thesis
        by (auto simp add: bake_execute_def Let_def fresh_run_frame then_do_def)
    next
      case other
      with assms(1,2) nopath False off show ?thesis
        by (auto simp add: bake_execute_def Let_def fresh_run_frame then_do_def)
    next
      case mats
      with assms(1,2) nopath False off smc show ?thesis
        by (auto simp add: bake_execute_def Let_def fresh_run_frame then_do_def)
    qed
  qed
qed

lemma bake_validation_pass:
  assumes "bake (simplifier b)" and "length (selected_objects b) = 1"
    and "validation_error b = Return None"
  shows "\<exists>mats. mats \<noteq> [] \<and> selected_materials (material_group b) b = Return mats \<and>
           bake_execute h b =
             then_do (generate_texture (texture_name (baker b)) (checked_state b)) (\<lambda>generated b2.
               if \<not> generated then
                 then_do (clean_up None b2) (\<lambda>_ b3. (Return CANCELLED, b3))
               else
                 then_do (bake_textures h mats b2) (\<lambda>baked b3.
                   if \<not> baked then
                     then_do (clean_up None b3) (\<lambda>_ b4. (Return CANCELLED, b4))
                   else (Return FINISHED, b3)))"
proof -
  let ?c = "checked_state b"
  from assms(3) have nopath: "\<not> (export_after (baker b) \<and> export_dir (simplifier b) \<notin> set (fs_paths b))"
    by (auto simp add: validation_error_def split: if_splits)
  have pre: "unwrap_model (simplifier b) \<Longrightarrow> unwrap (fresh_run b) = (Return (), ?c)"
    using assms(3) nopath
    by (auto simp add: validation_error_def checked_state_def prod_eq_iff
        split: outcome.splits if_splits option.splits)
  have off: "\<not> unwrap_model (simplifier b) \<Longrightarrow> ?c = fresh_run b"
    by (simp add: checked_state_def)
  from assms(3) nopath obtain mats where
    uv: "unwrap_model (simplifier b)
         \<or> (\<exists>ob. active_object b = Some ob \<and> obj_type ob = ''MESH'' \<and> uv_layers ob \<noteq> [])"
    and sm0: "selected_materials (material_group b) b = Return mats" and ne: "mats \<noteq> []"
    by (auto simp add: validation_error_def split: outcome.splits if_splits option.splits)
  have sm: "selected_materials (material_group b) ?c = Return mats"
    using checked_state_materials [of b] sm0 by (simp add: checked_state_fields)
  have "bake_execute h b =
      then_do (generate_texture (texture_name (baker b)) ?c) (\<lambda>generated b2.
        if \<not> generated then
          then_do (clean_up None b2) (\<lambda>_ b3. (Return CANCELLED, b3))
        else
          then_do (bake_textures h mats b2) (\<lambda>baked b3.
            if \<not> baked then
              then_do (clean_up None b3) (\<lambda>_ b4. (Return CANCELLED, b4))
            else (Return FINISHED, b3)))"
  proof (cases "unwrap_model (simplifier b)")
    case True
    with assms(1,2) nopath pre sm ne show ?thesis
      by (auto simp add: bake_execute_def Let_def fresh_run_frame checked_state_fields
          then_do_def [of "(Return (), ?c)"])
  next
    case False
    with uv obtain ob where "active_object b = Some ob" "obj_type ob = ''MESH''" "uv_layers ob \<noteq> []"
      by blast
    with assms(1,2) nopath False off sm ne show ?thesis
      by (auto simp add: bake_execute_def Let_def fresh_run_frame
          then_do_def [of "(Return (), fresh_run b)"])
  qed
  with sm0 ne show ?thesis by blast
qed

text \<open>
  Without an active object the operator does not get as far as a validation error: with
  the unwrap option on, \<^verbatim>\<open>mode_set\<close> is refused inside \<^verbatim>\<open>unwrap\<close>; with the option off,
  the read of the UV map fails. The same holds for an active object that is not a mesh
  when the option is off, and for one whose type has no edit mode when it is on.
\<close>

lemma validation_without_active_object:
  assumes "\<not> (export_after (baker b) \<and> export_dir (simplifier b) \<notin> set (fs_paths b))"
    and "active b = None"
  shows "validation_error b
       = Raised (if unwrap_model (simplifier b) then RuntimeError else AttributeError)"
  using assms
  by (simp add: validation_error_def unwrap_def then_do_def transform_apply_def mode_set_def
      active_object_def fresh_run_def)

lemma validation_without_mesh:
  assumes "\<not> (export_after (baker b) \<and> export_dir (simplifier b) \<notin> set (fs_paths b))"
    and "active_object b = Some act" and "obj_type act \<noteq> ''MESH''"
    and "\<not> unwrap_model (simplifier b)"
  shows "validation_error b = Raised AttributeError"
  using assms by (simp add: validation_error_def)

lemma validation_without_edit_mode:
  assumes "\<not> (export_after (baker b) \<and> export_dir (simplifier b) \<notin> set (fs_paths b))"
    and "active_object b = Some act" and "obj_mode act = ''OBJECT''"
    and "''EDIT'' \<notin> set (object_modes (obj_type act))"
    and "unwrap_model (simplifier b)"
  shows "validation_error b = Raised TypeError"
proof -
  let ?f = "\<lambda>ob. if obj_select ob
                  then ob\<lparr>obj_location := obj_location ob, obj_rotation := obj_rotation ob,
                          obj_scale := (1, 1, 1)\<rparr>
                  else ob"
  let ?b0 = "fresh_run b"
  let ?b1 = "?b0\<lparr>objects := map ?f (objects ?b0)\<rparr>"
  have a0: "active_object ?b0 = Some act"
    by (simp add: fresh_run_frame assms(2))
  then have t: "transform_apply False False True ?b0 = (Return (), ?b1)"
    by (simp add: transform_apply_def assms(3))
  have "active_object ?b1 = map_option ?f (active_object ?b0)"
    by (rule active_object_map) simp
  then have a1: "active_object ?b1 = Some (?f act)"
    by (simp add: a0)
  have m: "mode_set ''EDIT'' ?b1 = (Raised TypeError, ?b1)"
    unfolding mode_set_def a1 using assms(4) by simp
  have "fst (unwrap ?b0) = Raised TypeError"
    by (simp add: unwrap_def fresh_run_frame(13) t m then_do_def)
  with assms(1,5) show ?thesis
    by (simp add: validation_error_def)
qed


text \<open>The definitions a run on the bake scene unfolds.\<close>

lemmas bake_scene_defs = bake_scene_def empty_blend_def mesh_object_def slot_of_def listed_def
  default_tree_def obliging_host_def

lemmas check_defs = validation_error_def active_object_def lookup_object_def selected_objects_def
  strip_def is_space_def



section \<open>Properties of the bake operator: the textures\<close>

lemma texture_exists_find:
  "texture_exists n bk imgs =
     (case find (\<lambda>img. img_name img = n) imgs of
        None \<Rightarrow> Return False
      | Some img \<Rightarrow> if img_size img = (width bk, height bk) then Return True
                    else Raised AttributeError)"
  by (induction imgs) (auto simp add: prod_eq_iff)

lemma find_name_None:
  "(find (\<lambda>img. img_name img = n) imgs = None) = (n \<notin> set (map img_name imgs))"
  by (induction imgs) auto

lemma find_snoc_other:
  assumes "\<not> P y"
  shows "find P (xs @ [y]) = find P xs"
  using assms by (induction xs) auto

lemma conflicting_snoc:
  assumes "m \<noteq> n"
  shows "conflicting n bk (imgs @ [new_image m bk']) = conflicting n bk imgs"
  using assms by (simp add: conflicting_def find_snoc_other new_image_def)

lemma conflicting_snoc_channel:
  assumes "c \<noteq> c'"
  shows "conflicting (tex @ ''_'' @ c') bk (imgs @ [new_image (tex @ ''_'' @ c) bk'])
       = conflicting (tex @ ''_'' @ c') bk imgs"
  by (rule conflicting_snoc) (use assms in simp)

lemma take_utf8_all: "utf8_length s \<le> k \<Longrightarrow> take_utf8 k s = s"
  by (induction s arbitrary: k) (auto simp add: utf8_length_def split: if_splits)

lemma images_new_eq:
  assumes "utf8_length n \<le> 63"
  shows "images_new n (width (baker b)) (height (baker b)) b
       = b\<lparr>images := images b @ [new_image n (baker b)]\<rparr>"
  by (simp add: images_new_def new_image_def take_utf8_all [OF assms])

lemma generate_loop_conflict:
  assumes "conflicting (tex @ ''_'' @ ch) (baker b) (images b)"
    and "list_all (\<lambda>c. \<not> conflicting (tex @ ''_'' @ c) (baker b) (images b)) pre"
    and "distinct (pre @ [ch])"
    and "list_all (\<lambda>c. utf8_length (tex @ ''_'' @ c) \<le> 63) pre"
  shows "generate_loop tex (pre @ ch # post) b =
           (Return False,
            report ''ERROR'' resolution_message
              (b\<lparr>images := images b @ map (\<lambda>c. new_image (tex @ ''_'' @ c) (baker b))
                   (filter (\<lambda>c. tex @ ''_'' @ c \<notin> set (map img_name (images b))) pre)\<rparr>))"
  using assms
proof (induction pre arbitrary: b)
  case Nil
  then have "texture_exists (tex @ ''_'' @ ch) (baker b) (images b) = Raised AttributeError"
    by (auto simp add: texture_exists_find conflicting_def split: option.splits)
  then show ?case
    by (simp add: resolution_message_def)
next
  case (Cons c pre)
  let ?n = "tex @ ''_'' @ c"
  from Cons.prems have noconf: "\<not> conflicting ?n (baker b) (images b)"
    and rest: "list_all (\<lambda>c. \<not> conflicting (tex @ ''_'' @ c) (baker b) (images b)) pre"
    and dist: "distinct (pre @ [ch])" and cch: "c \<noteq> ch" and cpre: "c \<notin> set pre"
    and fits: "utf8_length ?n \<le> 63"
    and fit: "list_all (\<lambda>c. utf8_length (tex @ ''_'' @ c) \<le> 63) pre"
    by auto
  show ?case
  proof (cases "find (\<lambda>img. img_name img = ?n) (images b)")
    case (Some img)
    with noconf have ex: "texture_exists ?n (baker b) (images b) = Return True"
      by (simp add: texture_exists_find conflicting_def)
    have "find (\<lambda>img. img_name img = ?n) (images b) \<noteq> None"
      using Some by simp
    then have "?n \<in> set (map img_name (images b))"
      by (simp only: find_name_None not_not)
    with ex Cons.IH [OF Cons.prems(1) rest dist fit] show ?thesis
      by simp
  next
    case None
    then have ex: "texture_exists ?n (baker b) (images b) = Return False"
      by (simp add: texture_exists_find)
    from None have absent: "?n \<notin> set (map img_name (images b))"
      using find_name_None [of ?n "images b"] by blast
    let ?b' = "b\<lparr>images := images b @ [new_image ?n (baker b)]\<rparr>"
    have c1: "conflicting (tex @ ''_'' @ ch) (baker ?b') (images ?b')"
      using Cons.prems(1) cch by (simp add: conflicting_snoc_channel del: append.simps)
    have c2: "list_all (\<lambda>c. \<not> conflicting (tex @ ''_'' @ c) (baker ?b') (images ?b')) pre"
      unfolding list_all_iff
    proof
      fix c' assume c': "c' \<in> set pre"
      with cpre have ne: "c \<noteq> c'" by auto
      from rest c' have "\<not> conflicting (tex @ ''_'' @ c') (baker b) (images b)"
        by (simp add: list_all_iff)
      then show "\<not> conflicting (tex @ ''_'' @ c') (baker ?b') (images ?b')"
        using conflicting_snoc_channel [OF ne, of tex "baker b" "images b" "baker b"]
        by (simp del: append.simps)
    qed
    have flt: "filter (\<lambda>c'. tex @ ''_'' @ c' \<notin> set (map img_name (images ?b'))) pre
             = filter (\<lambda>c'. tex @ ''_'' @ c' \<notin> set (map img_name (images b))) pre"
      using cpre by (intro filter_cong) (auto simp add: new_image_def)
    let ?missing = "filter (\<lambda>c'. tex @ ''_'' @ c' \<notin> set (map img_name (images b))) pre"
    from Cons.IH [OF c1 c2 dist fit]
    have ih: "generate_loop tex (pre @ ch # post) ?b' =
        (Return False,
         report ''ERROR'' resolution_message
           (?b'\<lparr>images := images ?b' @ map (\<lambda>c. new_image (tex @ ''_'' @ c) (baker ?b')) ?missing\<rparr>))"
      by (simp only: flt)
    have step: "generate_loop tex ((c # pre) @ ch # post) b = generate_loop tex (pre @ ch # post) ?b'"
      using ex fits by (simp add: images_new_eq)
    have flt2: "filter (\<lambda>c'. tex @ ''_'' @ c' \<notin> set (map img_name (images b))) (c # pre) = c # ?missing"
      using absent by simp
    have st: "?b'\<lparr>images := images ?b' @ map (\<lambda>c. new_image (tex @ ''_'' @ c) (baker ?b')) ?missing\<rparr>
        = b\<lparr>images := images b @ map (\<lambda>c. new_image (tex @ ''_'' @ c) (baker b)) (c # ?missing)\<rparr>"
      by simp
    show ?thesis
      unfolding step ih flt2 st ..
  qed
qed

lemma first_conflict:
  assumes "list_ex P xs"
  shows "\<exists>x post. xs = takeWhile (\<lambda>x. \<not> P x) xs @ x # post \<and> P x"
proof -
  from assms have "dropWhile (\<lambda>x. \<not> P x) xs \<noteq> []"
    by (auto simp add: list_ex_iff dropWhile_eq_Nil_conv)
  then obtain x post where d: "dropWhile (\<lambda>x. \<not> P x) xs = x # post"
    by (cases "dropWhile (\<lambda>x. \<not> P x) xs") auto
  then have "P x"
    using hd_dropWhile [of "\<lambda>x. \<not> P x" xs] by simp
  moreover have "xs = takeWhile (\<lambda>x. \<not> P x) xs @ x # post"
    using takeWhile_dropWhile_id [of "\<lambda>x. \<not> P x" xs] d by simp
  ultimately show ?thesis by blast
qed

text \<open>
  Claim C5. A bake invocation that passes the validation (so the texture name is not
  blank) and in which a requested channel is in conflict - an image of the derived name
  exists with another size - is cancelled with the report of the resolution conflict.
  The images that existed are all still there, unchanged and in place, and no node, no
  file and no exporter call has been made. But the channels iterated before the first
  conflicting one have got their images if they had none: nothing is allocated only from
  the conflicting channel on. (The derived names are taken to fit the host's limit of 63
  bytes; a new image has the size asked for, but 1 at least.)
\<close>

theorem bake_resolution_conflict:
  assumes "bake (simplifier b)" and "length (selected_objects b) = 1"
    and "validation_error b = Return None"
    and "list_ex (channel_conflict b) (requested b)"
    and "list_all (\<lambda>c. utf8_length (derived_name b c) \<le> 63) (requested b)"
  shows "fst (bake_execute h b) = Return CANCELLED
       \<and> reports (snd (bake_execute h b)) = reports b @ [(''ERROR'', resolution_message)]
       \<and> images (snd (bake_execute h b))
           = images b @ map (\<lambda>c. new_image (derived_name b c) (baker b))
                          (filter (\<lambda>c. derived_name b c \<notin> set (map img_name (images b)))
                             (takeWhile (\<lambda>c. \<not> channel_conflict b c) (requested b)))
       \<and> materials (snd (bake_execute h b)) = materials b
       \<and> texture_nodes (snd (bake_execute h b)) = []
       \<and> fs_paths (snd (bake_execute h b)) = fs_paths b
       \<and> export_calls (snd (bake_execute h b)) = export_calls b"
proof -
  let ?c = "checked_state b"
  let ?tex = "texture_name (baker b)"
  let ?pre = "takeWhile (\<lambda>c. \<not> channel_conflict b c) (requested b)"
  let ?c1 = "?c\<lparr>textures_to_create := requested b\<rparr>"
  from bake_validation_pass [OF assms(1-3), of h] obtain mats where
    run: "bake_execute h b =
      then_do (generate_texture ?tex ?c) (\<lambda>generated b2.
        if \<not> generated then
          then_do (clean_up None b2) (\<lambda>_ b3. (Return CANCELLED, b3))
        else
          then_do (bake_textures h mats b2) (\<lambda>baked b3.
            if \<not> baked then
              then_do (clean_up None b3) (\<lambda>_ b4. (Return CANCELLED, b4))
            else (Return FINISHED, b3)))"
    by blast
  from assms(3) have name: "strip ?tex \<noteq> []"
    by (auto simp add: validation_error_def split: if_splits outcome.splits option.splits)
  from first_conflict [OF assms(4)] obtain ch post where
    split: "requested b = ?pre @ ch # post" and ch: "channel_conflict b ch"
    by blast
  have "distinct (requested b)"
    by (simp add: requested_def)
  then have dist: "distinct (?pre @ [ch])"
    by (subst (asm) split) simp
  have c1: "conflicting (?tex @ ''_'' @ ch) (baker ?c1) (images ?c1)"
    using ch by (simp add: channel_conflict_def derived_name_def checked_state_fields)
  have c2: "list_all (\<lambda>c. \<not> conflicting (?tex @ ''_'' @ c) (baker ?c1) (images ?c1)) ?pre"
    unfolding list_all_iff
  proof
    fix c assume "c \<in> set ?pre"
    then have "\<not> channel_conflict b c"
      by (rule set_takeWhileD [THEN conjunct2])
    then show "\<not> conflicting (?tex @ ''_'' @ c) (baker ?c1) (images ?c1)"
      by (simp add: channel_conflict_def derived_name_def checked_state_fields)
  qed
  have c4: "list_all (\<lambda>c. utf8_length (?tex @ ''_'' @ c) \<le> 63) ?pre"
    unfolding list_all_iff
  proof
    fix c assume "c \<in> set ?pre"
    then have "c \<in> set (requested b)"
      by (rule set_takeWhileD [THEN conjunct1])
    with assms(5) show "utf8_length (?tex @ ''_'' @ c) \<le> 63"
      by (simp add: list_all_iff derived_name_def)
  qed
  have gen: "generate_texture ?tex ?c = generate_loop ?tex (?pre @ ch # post) ?c1"
    using name split by (simp add: generate_texture_def checked_state_fields requested_def)
  note loop = generate_loop_conflict [OF c1 c2 dist c4, of post]
  let ?b2 = "report ''ERROR'' resolution_message
     (?c1\<lparr>images := images ?c1 @ map (\<lambda>c. new_image (?tex @ ''_'' @ c) (baker ?c1))
           (filter (\<lambda>c. ?tex @ ''_'' @ c \<notin> set (map img_name (images ?c1))) ?pre)\<rparr>)"
  have cl: "clean_up None ?b2 = (Return (), ?b2)"
    by (rule clean_up_nothing) (simp add: checked_state_fields report_def)
  have "bake_execute h b = (Return CANCELLED, ?b2)"
    unfolding run gen loop
    by (simp only: then_do_def prod.case outcome.case not_False_eq_True if_True cl)
  then show ?thesis
    by (simp add: checked_state_fields report_def derived_name_def)
qed

text \<open>Diffuse, then normal, with \<open>tex_normal\<close> at half the size: the diffuse image is
  allocated before the conflict is met, and the operator is cancelled.\<close>

theorem bake_resolution_conflict_witness:
  "bake (simplifier half_size_normal)
   \<and> length (selected_objects half_size_normal) = 1
   \<and> validation_error half_size_normal = Return None
   \<and> requested half_size_normal = [''diffuse'', ''normal'']
   \<and> list_ex (channel_conflict half_size_normal) (requested half_size_normal)
   \<and> list_all (\<lambda>c. utf8_length (derived_name half_size_normal c) \<le> 63)
         (requested half_size_normal)
   \<and> fst (bake_execute obliging_host half_size_normal) = Return CANCELLED
   \<and> reports (snd (bake_execute obliging_host half_size_normal)) = [(''ERROR'', resolution_message)]
   \<and> images (snd (bake_execute obliging_host half_size_normal))
       = images half_size_normal @ [new_image ''tex_diffuse'' (baker half_size_normal)]"
  using bake_resolution_conflict [of half_size_normal obliging_host]
  by (simp add: half_size_normal_def bake_scene_defs check_defs lower_def lower_char_def
      conflicting_def channel_conflict_def derived_name_def requested_def utf8_length_def)

text \<open>
  The same invocation against "allocates nothing": it is cancelled with the resolution
  conflict, the existing image keeps its size, and a second image has been created.
\<close>

theorem conflict_after_allocation:
  "channel_conflict half_size_normal ''normal''
   \<and> fst (bake_execute obliging_host half_size_normal) = Return CANCELLED
   \<and> reports (snd (bake_execute obliging_host half_size_normal)) = [(''ERROR'', resolution_message)]
   \<and> map img_name (images half_size_normal) = [''tex_normal'']
   \<and> map img_name (images (snd (bake_execute obliging_host half_size_normal)))
       = [''tex_normal'', ''tex_diffuse'']
   \<and> map img_size (images (snd (bake_execute obliging_host half_size_normal)))
       = [(512, 512), (1024, 1024)]"
  by (simp add: half_size_normal_def bake_scene_defs strip_def is_space_def lower_def lower_char_def
      conflicting_def channel_conflict_def derived_name_def bake_execute_def fresh_run_def Let_def
      selected_objects_def active_object_def lookup_object_def generate_texture_def images_new_def
      report_def resolution_message_def then_do_def clean_up_def)
section \<open>Properties of the bake operator: the renderer\<close>

lemma render_prims:
  "render_settings (report l m b) = render_settings b"
  "render_settings (update_object n f b) = render_settings b"
  "render_settings (deselect_all_objects b) = render_settings b"
  "render_settings (duplicate b) = render_settings b"
  "render_settings (delete b) = render_settings b"
  "render_settings (set_tree ma t b) = render_settings b"
  "render_settings (set_texture_node ma k nid b) = render_settings b"
  "render_settings (enable_nodes ma b) = render_settings b"
  "render_settings (images_new n w hg b) = render_settings b"
  by (simp_all add: render_settings_def report_def update_object_def deselect_all_objects_def
      duplicate_def delete_def set_tree_def set_texture_node_def enable_nodes_def images_new_def)

lemma render_upd:
  "render_settings (b\<lparr>model_unwrapped := u\<rparr>) = render_settings b"
  "render_settings (b\<lparr>texture_nodes := tn\<rparr>) = render_settings b"
  "render_settings (b\<lparr>textures_to_create := tc\<rparr>) = render_settings b"
  "render_settings (b\<lparr>fs_paths := fp\<rparr>) = render_settings b"
  "render_settings (b\<lparr>export_calls := ec\<rparr>) = render_settings b"
  "render_settings (b\<lparr>active := a\<rparr>) = render_settings b"
  "render_settings (b\<lparr>objects := os\<rparr>) = render_settings b"
  "render_settings (b\<lparr>images := im\<rparr>) = render_settings b"
  "render_settings (b\<lparr>materials := ms\<rparr>) = render_settings b"
  by (simp_all add: render_settings_def)

lemma render_then_do:
  assumes "then_do r f = (res, b'')"
    and "\<And>x b'. r = (x, b') \<Longrightarrow> render_settings b' = R"
    and "\<And>x b' y c. render_settings b' = R \<Longrightarrow> f x b' = (y, c) \<Longrightarrow> render_settings c = R"
  shows "render_settings b'' = R"
  using assms(1)
proof (cases rule: then_do_cases)
  case (raised e)
  then show ?thesis using assms(2) by blast
next
  case (returned x b')
  then show ?thesis using assms(2,3) by blast
qed

lemma render_transform_apply:
  "transform_apply x y z b = (r, b') \<Longrightarrow> render_settings b' = render_settings b"
  by (auto simp add: transform_apply_def render_settings_def split: if_splits)

lemma render_mode_set:
  "mode_set m b = (r, b') \<Longrightarrow> render_settings b' = render_settings b"
  by (auto simp add: mode_set_def render_settings_def split: option.splits if_splits)

lemma render_mesh_select_all:
  "mesh_select_all b = (r, b') \<Longrightarrow> render_settings b' = render_settings b"
  by (auto simp add: mesh_select_all_def split: if_splits)

lemma render_smart_project:
  "smart_project b = (r, b') \<Longrightarrow> render_settings b' = render_settings b"
  by (auto simp add: smart_project_def render_settings_def split: if_splits)

lemma render_unwrap:
  assumes "unwrap b = (r, b')"
  shows "render_settings b' = render_settings b"
proof (cases "model_unwrapped b")
  case True
  with assms show ?thesis by (simp add: unwrap_def)
next
  case False
  with assms have "then_do (transform_apply False False True b) (\<lambda>_ b1.
        then_do (mode_set ''EDIT'' b1) (\<lambda>_ b2.
        then_do (mesh_select_all b2) (\<lambda>_ b3.
        then_do (smart_project b3) (\<lambda>_ b4.
        then_do (mode_set ''OBJECT'' b4) (\<lambda>_ b5.
          (Return (), b5\<lparr>model_unwrapped := True\<rparr>)))))) = (r, b')"
    by (simp add: unwrap_def)
  then show ?thesis
    by (elim render_then_do)
      (auto dest: render_transform_apply render_mode_set render_mesh_select_all
         render_smart_project simp add: render_upd)
qed

lemma render_prims2:
  "render_settings (correct_origin n b) = render_settings b"
  "render_settings (export_clean_up b) = render_settings b"
  by (simp_all add: correct_origin_def export_clean_up_def render_prims)

lemma render_apply_transform:
  "apply_transform b = (r, b') \<Longrightarrow> render_settings b' = render_settings b"
  unfolding apply_transform_def by (rule render_transform_apply)

lemma render_maybe_unwrap:
  "(if c then unwrap b else (Return (), b)) = (r, b') \<Longrightarrow> render_settings b' = render_settings b"
  by (auto dest: render_unwrap split: if_splits)

lemma render_select_object:
  "select_object n b = (r, b') \<Longrightarrow> render_settings b' = render_settings b"
  by (auto simp add: select_object_def Let_def render_prims split: option.splits)

lemma render_create_subdir:
  "create_subdir h n p b = (r, b') \<Longrightarrow> render_settings b' = render_settings b"
  by (auto simp add: create_subdir_def Let_def render_settings_def split: option.splits if_splits)

lemma render_call_exporter:
  "call_exporter h e t kw b = (r, b') \<Longrightarrow> render_settings b' = render_settings b"
  by (auto simp add: call_exporter_def Let_def render_settings_def split: if_splits)

lemma render_export_unreal:
  assumes "export_unreal h d n b = (r, b')"
  shows "render_settings b' = render_settings b"
proof -
  let ?b1 = "if length (selected_objects b) = 1
             then correct_origin (obj_name (hd (selected_objects b))) b else b"
  have b1: "render_settings ?b1 = render_settings b"
    by (simp add: render_prims2)
  from assms have "render_settings b' = render_settings ?b1 \<or> b' = b"
    unfolding export_unreal_def Let_def
    apply (auto split: if_splits elim!: render_then_do
        dest!: render_call_exporter render_apply_transform dest: render_unwrap)
       apply (metis render_unwrap)+
    done
  with b1 show ?thesis by auto
qed

lemma render_simplifier_perform_export:
  "simplifier_perform_export h b = (r, b') \<Longrightarrow> render_settings b' = render_settings b"
  by (auto simp add: simplifier_perform_export_def Let_def render_prims render_prims2
      dest!: render_create_subdir render_export_unreal
      split: list.splits prod.splits outcome.splits if_splits)

lemma render_select_each:
  "select_each ns b = (r, b') \<Longrightarrow> render_settings b' = render_settings b"
proof (induction ns arbitrary: b)
  case Nil
  then show ?case by simp
next
  case (Cons n ns)
  then show ?case
    by (auto dest!: render_select_object split: prod.splits outcome.splits)
qed

lemma render_set_original_configuration:
  "set_original_configuration m sel act b = (r, b') \<Longrightarrow> render_settings b' = render_settings b"
  by (auto simp add: set_original_configuration_def render_upd
      dest!: render_select_each render_mode_set split: prod.splits outcome.splits)

lemma render_export_execute:
  assumes "export_execute h b = (r, b')"
  shows "render_settings b' = render_settings b"
proof -
  let ?b = "b\<lparr>model_unwrapped := False\<rparr>"
  have b0: "render_settings ?b = render_settings b"
    by (simp add: render_upd)
  from assms have "render_settings b' = render_settings ?b"
    unfolding export_execute_def Let_def
    by (auto simp add: render_prims render_upd
        dest!: render_simplifier_perform_export render_set_original_configuration render_mode_set
        split: option.splits prod.splits outcome.splits if_splits elim!: render_then_do)
  with b0 show ?thesis by simp
qed

lemma render_call_export_operator:
  "call_export_operator h b = (r, b') \<Longrightarrow> render_settings b' = render_settings b"
  by (auto simp add: call_export_operator_def dest!: render_export_execute
      split: prod.splits outcome.splits if_splits)

lemma render_remove_nodes:
  "remove_nodes m ns b = (r, b') \<Longrightarrow> render_settings b' = render_settings b"
proof (induction ns arbitrary: b)
  case Nil
  then show ?case by simp
next
  case (Cons n ns)
  then show ?case
    by (fastforce simp add: render_prims split: option.splits)
qed

lemma render_clean_up_loop:
  "clean_up_loop s tn b = (r, b') \<Longrightarrow> render_settings b' = render_settings b"
proof (induction tn arbitrary: b)
  case Nil
  then show ?case by simp
next
  case (Cons entry tn)
  obtain m d where entry: "entry = (m, d)" by (cases entry)
  show ?case
  proof (cases s)
    case None
    with Cons.prems consider
        u b1 where "remove_nodes m (map snd d) b = (Return u, b1)" "clean_up_loop s tn b1 = (r, b')"
      | e where "remove_nodes m (map snd d) b = (Raised e, b')"
      unfolding entry by (auto split: prod.splits outcome.splits)
    then show ?thesis
      by cases (metis render_remove_nodes Cons.IH)+
  next
    case (Some key)
    with Cons.prems consider "b' = b"
      | nid u b1 where "remove_nodes m [nid] b = (Return u, b1)" "clean_up_loop s tn b1 = (r, b')"
      | nid e where "remove_nodes m [nid] b = (Raised e, b')"
      unfolding entry
      by (auto simp del: remove_nodes.simps split: option.splits prod.splits outcome.splits)
    then show ?thesis
      by cases (metis render_remove_nodes Cons.IH)+
  qed
qed

lemma render_clean_up:
  "clean_up s b = (r, b') \<Longrightarrow> render_settings b' = render_settings b"
  by (auto simp add: clean_up_def dest!: render_clean_up_loop)

lemma render_save_image:
  "save_image h d n b = (r, b') \<Longrightarrow> render_settings b' = render_settings b"
  by (auto simp add: save_image_def Let_def render_upd split: if_splits)

lemma render_save_nodes:
  "save_nodes h m d ns b = (r, b') \<Longrightarrow> render_settings b' = render_settings b"
proof (induction ns arbitrary: b)
  case Nil
  then show ?case by simp
next
  case (Cons n ns)
  from Cons.prems show ?case
    by (auto dest!: render_save_image Cons.IH
        split: option.splits prod.splits outcome.splits if_splits)
qed

lemma render_save_textures:
  "save_textures h b = (r, b') \<Longrightarrow> render_settings b' = render_settings b"
  by (auto simp add: save_textures_def render_prims
      dest!: render_create_subdir render_save_nodes
      split: list.splits prod.splits outcome.splits if_splits)

lemma render_create_texture_nodes:
  "create_texture_nodes m cs b = (r, b') \<Longrightarrow> render_settings b' = render_settings b"
proof (induction cs arbitrary: b)
  case Nil
  then show ?case by simp
next
  case (Cons c cs)
  from Cons.prems show ?case
    by (auto simp add: Let_def render_prims render_upd dest!: Cons.IH
        split: option.splits if_splits)
qed

lemma render_link_by_key:
  "link_by_key m f t i b = (r, b') \<Longrightarrow> render_settings b' = render_settings b"
  by (auto simp add: link_by_key_def render_prims split: option.splits)

lemma render_new_node_by_key:
  "new_node_by_key m ty k b = (r, b') \<Longrightarrow> render_settings b' = render_settings b"
  by (auto simp add: new_node_by_key_def render_prims split: option.splits)

lemma render_wire_principled:
  assumes "wire_principled m b = (r, b')"
  shows "render_settings b' = render_settings b"
  using assms unfolding wire_principled_def
  by (elim render_then_do)
    (auto dest: render_new_node_by_key render_link_by_key split: if_splits
       elim!: render_then_do)

lemma render_prepare_new_nodes:
  assumes "prepare_new_nodes m co b = (r, b')"
  shows "render_settings b' = render_settings b"
  using assms
  apply (auto simp add: prepare_new_nodes_def Let_def render_upd
      dest: render_create_texture_nodes render_wire_principled
      split: option.splits list.splits if_splits elim!: render_then_do)
   apply (metis render_wire_principled)+
  done

lemma render_prepare_all:
  "prepare_all ms co b = (r, b') \<Longrightarrow> render_settings b' = render_settings b"
proof (induction ms arbitrary: co b)
  case Nil
  then show ?case by simp
next
  case (Cons m ms)
  from Cons.prems consider
      e where "prepare_new_nodes m co (enable_nodes m b) = (Raised e, b')"
    | co1 b1 where "prepare_new_nodes m co (enable_nodes m b) = (Return (True, co1), b1)"
        "prepare_all ms co1 b1 = (r, b')"
    | co1 b1 where "prepare_new_nodes m co (enable_nodes m b) = (Return (False, co1), b1)"
        "b' = report ''ERROR'' (''Output node is missing in '' @ m @ '' material.'') b1"
    by (auto split: prod.splits outcome.splits if_splits)
  then show ?case
  proof cases
    case 1
    from render_prepare_new_nodes [OF 1] show ?thesis by (simp add: render_prims)
  next
    case 2
    from render_prepare_new_nodes [OF 2(1)] Cons.IH [OF 2(2)] show ?thesis
      by (simp add: render_prims)
  next
    case 3
    from render_prepare_new_nodes [OF 3(1)] 3(2) show ?thesis by (simp add: render_prims)
  qed
qed

lemma render_set_active_loop:
  "set_active_loop k tn b = (r, b') \<Longrightarrow> render_settings b' = render_settings b"
proof (induction tn arbitrary: b)
  case Nil
  then show ?case by simp
next
  case (Cons entry tn)
  obtain m d where entry: "entry = (m, d)" by (cases entry)
  from Cons.prems consider "b' = b"
    | nid t where "set_active_loop k tn (set_tree m (t\<lparr>active_node := Some nid\<rparr>) b) = (r, b')"
    unfolding entry by (auto split: option.splits)
  then show ?case
  proof cases
    case 1
    then show ?thesis by simp
  next
    case 2
    from Cons.IH [OF 2] show ?thesis by (simp add: render_prims)
  qed
qed

lemma render_set_nodes_as_active:
  "set_nodes_as_active k b = (r, b') \<Longrightarrow> render_settings b' = render_settings b"
  by (auto simp add: set_nodes_as_active_def dest: render_set_active_loop)

lemma render_bake_loop:
  "bake_loop h cs b = (r, b') \<Longrightarrow> render_settings b' = render_settings b"
proof (induction cs arbitrary: b)
  case Nil
  then show ?case by simp
next
  case (Cons c cs)
  from Cons.prems consider
      x where "set_nodes_as_active c b = (x, b')"
    | u b1 where "set_nodes_as_active c b = (Return u, b1)" "bake_loop h cs b1 = (r, b')"
    by (auto split: prod.splits outcome.splits if_splits)
  then show ?case
  proof cases
    case 1
    then show ?thesis by (rule render_set_nodes_as_active)
  next
    case 2
    from render_set_nodes_as_active [OF 2(1)] Cons.IH [OF 2(2)] show ?thesis by simp
  qed
qed

lemma render_run_reconnect:
  "run_reconnect c b = (r, b') \<Longrightarrow> render_settings b' = render_settings b"
  by (auto simp add: run_reconnect_def render_prims split: reconnect.splits option.splits)

lemma render_run_connects:
  "run_connects cs b = (r, b') \<Longrightarrow> render_settings b' = render_settings b"
proof (induction cs arbitrary: b)
  case Nil
  then show ?case by simp
next
  case (Cons c cs)
  from Cons.prems consider
      x where "run_reconnect c b = (x, b')"
    | u b1 where "run_reconnect c b = (Return u, b1)" "run_connects cs b1 = (r, b')"
    by (auto split: prod.splits outcome.splits)
  then show ?case
  proof cases
    case 1
    then show ?thesis by (rule render_run_reconnect)
  next
    case 2
    from render_run_reconnect [OF 2(1)] Cons.IH [OF 2(2)] show ?thesis by simp
  qed
qed

lemma render_after_bake:
  assumes "after_bake h co b = (r, b')"
  shows "render_settings b' = render_settings b"
  using assms unfolding after_bake_def
  apply (elim render_then_do)
  apply (auto dest: render_save_textures render_clean_up render_run_connects render_call_export_operator
       split: if_splits elim!: render_then_do)
     apply (metis render_call_export_operator render_run_connects)+
  done

text \<open>
  Claim C3. Whatever \<^verbatim>\<open>bake_textures\<close> does - return \<open>True\<close> or \<open>False\<close>, or raise -,
  the render engine of the state it leaves is the one it found. The render device is
  not put back: once the node preparation has run through for all materials the device
  is the one of the bake settings, and it stays that; otherwise it is untouched. (The bake
  settings themselves are never written.)
\<close>

theorem bake_textures_render:
  "render_engine (snd (bake_textures h mats b)) = render_engine b
   \<and> cycles_device (snd (bake_textures h mats b))
       = (if prepared mats b then device (baker b) else cycles_device b)
   \<and> baker (snd (bake_textures h mats b)) = baker b"
proof -
  obtain r1 b1 where prep: "prepare_all mats \<lparr>co_new = [], co_old = []\<rparr> (b\<lparr>texture_nodes := []\<rparr>) = (r1, b1)"
    by (cases "prepare_all mats \<lparr>co_new = [], co_old = []\<rparr> (b\<lparr>texture_nodes := []\<rparr>)")
  from render_prepare_all [OF prep] have f1: "render_settings b1 = render_settings b"
    by (simp add: render_upd)
  show ?thesis
  proof (cases "\<exists>co. r1 = Return (True, co)")
    case False
    then have np: "\<not> prepared mats b"
      using prep by (cases r1) (auto simp add: prepared_def)
    from False prep have "snd (bake_textures h mats b) = b1"
      by (cases r1) (auto simp add: bake_textures_def)
    with f1 np show ?thesis
      by (simp add: render_settings_def)
  next
    case True
    then obtain co where r1: "r1 = Return (True, co)" by blast
    with prep have p: "prepared mats b"
      by (simp add: prepared_def)
    let ?b2 = "b1\<lparr>render_engine := ''CYCLES'', cycles_device := device (baker b1)\<rparr>"
    obtain r3 b3 where loop: "bake_loop h (textures_to_create ?b2) ?b2 = (r3, b3)"
      by (cases "bake_loop h (textures_to_create ?b2) ?b2")
    from render_bake_loop [OF loop] have f3: "render_settings b3 = render_settings ?b2" .
    have goal: "render_settings c = render_settings (b3\<lparr>render_engine := render_engine b1\<rparr>)
        \<Longrightarrow> render_engine c = render_engine b \<and> cycles_device c = device (baker b) \<and> baker c = baker b"
      for c
      using f1 f3 by (simp add: render_settings_def)
    show ?thesis
    proof (cases r3)
      case (Return u)
      obtain r b' where ab: "after_bake h co (b3\<lparr>render_engine := render_engine b1\<rparr>) = (r, b')"
        by (cases "after_bake h co (b3\<lparr>render_engine := render_engine b1\<rparr>)")
      from prep r1 loop Return ab have "snd (bake_textures h mats b) = b'"
        by (simp add: bake_textures_def Let_def)
      with goal [OF render_after_bake [OF ab]] p show ?thesis by simp
    next
      case (Raised e)
      show ?thesis
      proof (cases "e = RuntimeError")
        case False
        with prep r1 loop Raised
        have "snd (bake_textures h mats b) = b3\<lparr>render_engine := render_engine b1\<rparr>"
          by (simp add: bake_textures_def Let_def)
        with goal [of "b3\<lparr>render_engine := render_engine b1\<rparr>"] p show ?thesis by simp
      next
        case True
        let ?b3' = "report ''ERROR''
            ''Texture name refers to image which was deleted on disk, please use another name.'' b3"
        obtain r4 b4 where cl: "clean_up None ?b3' = (r4, b4)"
          by (cases "clean_up None ?b3'")
        from render_clean_up [OF cl] have f4: "render_settings b4 = render_settings b3"
          by (simp add: render_prims)
        from True prep r1 loop Raised cl
        have "snd (bake_textures h mats b) = b4\<lparr>render_engine := render_engine b1\<rparr>"
          by (cases r4) (simp_all add: bake_textures_def Let_def)
        moreover have "render_settings (b4\<lparr>render_engine := render_engine b1\<rparr>)
            = render_settings (b3\<lparr>render_engine := render_engine b1\<rparr>)"
          using f4 by (simp add: render_settings_def)
        ultimately show ?thesis
          using goal [of "b4\<lparr>render_engine := render_engine b1\<rparr>"] p by simp
      qed
    qed
  qed
qed

text \<open>
  The bake scene with the GPU as the render device and the CPU in the bake settings:
  after a bake that succeeds, and after one whose host bake raises, the device is the
  CPU; the engine is as before.
\<close>

theorem bake_leaves_device_changed:
  "cycles_device gpu_ready = ''GPU''
   \<and> device (baker gpu_ready) = ''CPU''
   \<and> fst (bake_textures obliging_host [''Wood'', ''Steel''] gpu_ready) = Return True
   \<and> cycles_device (snd (bake_textures obliging_host [''Wood'', ''Steel''] gpu_ready)) = ''CPU''
   \<and> render_engine (snd (bake_textures obliging_host [''Wood'', ''Steel''] gpu_ready))
       = render_engine gpu_ready
   \<and> fst (bake_textures failing_bake_host [''Wood'', ''Steel''] gpu_ready) = Return False
   \<and> cycles_device (snd (bake_textures failing_bake_host [''Wood'', ''Steel''] gpu_ready)) = ''CPU''"
  by code_simp

section \<open>Properties of the bake operator: failures\<close>

text \<open>Once the bake loop has run through, \<^verbatim>\<open>bake_textures\<close> has no way left to return
  \<open>False\<close>: whatever happens while saving, the rest of the function ends in
  \<^verbatim>\<open>return True\<close> or in an exception.\<close>

lemma then_do_never:
  assumes "\<And>x b. fst (f x b) \<noteq> Return v"
  shows "fst (then_do r f) \<noteq> Return v"
  using assms by (auto simp add: then_do_def split: prod.splits outcome.splits)

lemma after_bake_never_false: "fst (after_bake h co b) \<noteq> Return False"
  unfolding after_bake_def
  by (rule then_do_never)+ simp

text \<open>
  Claim C6. On a host that refuses to create the output directory, the bake of the bake
  scene with no channel chosen reports "Cannot access chosen dir." and finishes all the
  same; nothing is written. With the diffuse channel chosen the report is the same, and
  the operator ends in an exception instead of an error status: after the failed save
  the nodes are removed, and the function goes on to remove them a second time.
\<close>

theorem failed_save_still_finishes:
  "fst (bake_execute read_only_host no_channels) = Return FINISHED
   \<and> reports (snd (bake_execute read_only_host no_channels)) = [(''ERROR'', ''Cannot access chosen dir.'')]
   \<and> fs_paths (snd (bake_execute read_only_host no_channels)) = fs_paths no_channels
   \<and> fst (bake_execute read_only_host bake_scene) = Raised ReferenceError
   \<and> reports (snd (bake_execute read_only_host bake_scene)) = [(''ERROR'', ''Cannot access chosen dir.'')]"
  by code_simp

text \<open>
  Claim C1. Two failures after node creation has begun. With the Surface input of the
  second material unconnected, reading the link raises; the texture node created in the
  first material stays in its graph. With a host bake that raises, the nodes are
  removed by the handler in \<^verbatim>\<open>bake_textures\<close>, and the second clean-up in \<^verbatim>\<open>execute\<close>
  is handed the removed nodes: the operator ends in an exception rather than being
  cancelled (the graphs are as before).
\<close>

theorem cleanup_leaves_nodes_or_raises:
  "fst (bake_execute obliging_host steel_unconnected) = Raised IndexError
   \<and> all_nodes steel_unconnected
       = [(''Wood'', nodes default_tree), (''Steel'', nodes default_tree)]
   \<and> all_nodes (snd (bake_execute obliging_host steel_unconnected))
       = [(''Wood'', nodes default_tree
                      @ [\<lparr>node_id = 2, node_type = ''TEX_IMAGE'', node_image = Some ''tex_diffuse''\<rparr>]),
          (''Steel'', nodes default_tree)]
   \<and> fst (bake_execute failing_bake_host bake_scene) = Raised ReferenceError
   \<and> all_nodes (snd (bake_execute failing_bake_host bake_scene)) = all_nodes bake_scene"
  by code_simp

end
